theory Spec2Isabelle
  imports Main "HOL-Library.Word"
begin

section \<open>JavaScript values and objects\<close>

text \<open>
  The payloads, queue options and credential claims of the source are plain JavaScript
  objects that are built with object spread, read by property name and serialised as
  JSON. They are modelled as association lists from property names to values, in
  insertion order. A \<open>Date\<close> is its number of milliseconds since the epoch, or the
  invalid date; numbers are integers.
\<close>

datatype jsval =
    JUndefined
  | JNull
  | JBool bool
  | JNum int
  | JStr string
  | JDate int
  | JInvalidDate
  | JObj "(string \<times> jsval) list"
  | JArr "jsval list"

type_synonym obj = "(string \<times> jsval) list"

text \<open>Truthiness, as tested by \<open>if (v)\<close>, \<open>!v\<close> and \<open>a || b\<close>.\<close>

fun truthy :: "jsval \<Rightarrow> bool" where
  "truthy JUndefined = False"
| "truthy JNull = False"
| "truthy (JBool b) = b"
| "truthy (JNum n) = (n \<noteq> 0)"
| "truthy (JStr s) = (s \<noteq> [])"
| "truthy (JDate t) = True"
| "truthy JInvalidDate = True"
| "truthy (JObj kvs) = True"
| "truthy (JArr vs) = True"

text \<open>\<open>o.k\<close>: reading a property that is absent gives \<open>undefined\<close>.\<close>

definition obj_get :: "obj \<Rightarrow> string \<Rightarrow> jsval" where
  "obj_get ob k = (case map_of ob k of None \<Rightarrow> JUndefined | Some v \<Rightarrow> v)"

text \<open>\<open>o.k = v\<close>, and a property \<open>k: v\<close> of an object literal: an existing property keeps
  its place and takes the new value, a new one is appended.\<close>

fun obj_set :: "string \<Rightarrow> jsval \<Rightarrow> obj \<Rightarrow> obj" where
  "obj_set k v [] = [(k, v)]"
| "obj_set k v ((k', v') # rest) =
     (if k' = k then (k, v) # rest else (k', v') # obj_set k v rest)"

text \<open>\<open>delete o.k\<close>.\<close>

definition obj_delete :: "string \<Rightarrow> obj \<Rightarrow> obj" where
  "obj_delete k ob = filter (\<lambda>kv. fst kv \<noteq> k) ob"

text \<open>\<open>{...target, ...source}\<close>: for each property name of the source, in order, the
  value read from the source under that name is set on the target.\<close>

definition spread :: "obj \<Rightarrow> obj \<Rightarrow> obj" where
  "spread target source = foldl (\<lambda>acc k. obj_set k (obj_get source k) acc) target (map fst source)"

text \<open>What \<open>JSON.stringify\<close> keeps of a value: a property whose value is \<open>undefined\<close> is
  left out, \<open>undefined\<close> inside an array is written \<open>null\<close>, a \<open>Date\<close> is written as
  its timestamp (kept here as the instant) and the invalid date as \<open>null\<close>. A stored
  JSON text is modelled by the value it denotes.\<close>

fun json :: "jsval \<Rightarrow> jsval"
  and json_props :: "(string \<times> jsval) list \<Rightarrow> (string \<times> jsval) list"
  and json_prop :: "string \<times> jsval \<Rightarrow> (string \<times> jsval) list"
  and json_items :: "jsval list \<Rightarrow> jsval list" where
  "json (JObj kvs) = JObj (json_props kvs)"
| "json (JArr vs) = JArr (json_items vs)"
| "json JUndefined = JUndefined"
| "json JNull = JNull"
| "json (JBool b) = JBool b"
| "json (JNum n) = JNum n"
| "json (JStr s) = JStr s"
| "json (JDate t) = JDate t"
| "json JInvalidDate = JNull"
| "json_props [] = []"
| "json_props (kv # kvs) = json_prop kv @ json_props kvs"
| "json_prop (k, v) = (if v = JUndefined then [] else [(k, json v)])"
| "json_items [] = []"
| "json_items (v # vs) = (if v = JUndefined then JNull else json v) # json_items vs"

definition JSON_stringify :: "obj \<Rightarrow> obj" where
  "JSON_stringify ob = json_props ob"

section \<open>Errors\<close>

datatype error =
    InvalidTenantId
  | MissingTenantConfig string
  | MissingS3Credentials
  | MaximumCredentialsLimit
  | TypeError
  | Error string


section \<open>Configuration and external collaborators\<close>

text \<open>The values the modules read from \<open>getConfig()\<close>, which is not part of the sources.\<close>

record config =
  pgQueueEnable :: bool
  region :: string
  isMultitenant :: bool
  dbServiceRole :: string

record serviceKeyPayload =
  role :: string

text \<open>The functions imported from \<open>../auth\<close>: symmetric encryption and token verification.
  \<open>verifyJWT\<close> fails when the signature or the expiry is invalid. With them stand two
  conversions of the language itself, which are not spelled out here: the time value
  that \<open>new Date(v)\<close> computes from a value that is neither a \<open>Date\<close> nor a number (a
  string is parsed), and the number that \<open>Number(v)\<close> computes from a value that is not a
  number; \<open>None\<close> stands for \<open>NaN\<close>.\<close>

record deps =
  decrypt :: "string \<Rightarrow> string"
  encrypt :: "string \<Rightarrow> string"
  verifyJWT :: "string \<Rightarrow> string \<Rightarrow> error + serviceKeyPayload"
  Date_value :: "jsval \<Rightarrow> int option"
  to_number :: "jsval \<Rightarrow> int option"

text \<open>\<open>new Date(v)\<close>. A \<open>Date\<close> is copied. A number is the time value when it lies within
  the range of a \<open>Date\<close>, 8640000000000000 milliseconds either side of the epoch. Any
  other value goes through the conversion above; without a time value the result is the
  invalid date.\<close>

definition new_Date :: "deps \<Rightarrow> jsval \<Rightarrow> jsval" where
  "new_Date d v =
     (case v of
        JDate t \<Rightarrow> JDate t
      | JInvalidDate \<Rightarrow> JInvalidDate
      | JNum n \<Rightarrow> if \<bar>n\<bar> \<le> 8640000000000000 then JDate n else JInvalidDate
      | _ \<Rightarrow> (case Date_value d v of None \<Rightarrow> JInvalidDate | Some t \<Rightarrow> JDate t))"

text \<open>\<open>Number(v)\<close>, \<open>a || b\<close> and \<open>v?.k\<close>. Of an array or a string only \<open>length\<close> is a
  property that can be read by name.\<close>

definition Number :: "deps \<Rightarrow> jsval \<Rightarrow> int option" where
  "Number d v = (case v of JNum n \<Rightarrow> Some n | _ \<Rightarrow> to_number d v)"

definition or_else :: "jsval \<Rightarrow> jsval \<Rightarrow> jsval" where
  "or_else a b = (if truthy a then a else b)"

definition optional_get :: "jsval \<Rightarrow> string \<Rightarrow> jsval" where
  "optional_get v k =
     (case v of
        JObj ob \<Rightarrow> obj_get ob k
      | JArr vs \<Rightarrow> if k = ''length'' then JNum (int (length vs)) else JUndefined
      | JStr str \<Rightarrow> if k = ''length'' then JNum (int (length str)) else JUndefined
      | _ \<Rightarrow> JUndefined)"

section \<open>Tenant configuration (tenant.ts)\<close>

datatype TenantMigrationStatus = COMPLETED | FAILED | FAILED_STALE

text \<open>A row of the table \<open>tenants\<close>, with the columns that \<open>getTenantConfig\<close> reads.\<close>

record tenant_row =
  anon_key :: string
  database_url :: string
  file_size_limit :: int
  jwt_secret :: string
  jwks_column :: jsval
  service_key :: string
  feature_purge_cache :: bool
  feature_image_transformation :: bool
  feature_s3_protocol :: bool
  image_transformation_max_resolution :: "int option"
  database_pool_url :: "string option"
  max_connections :: "int option"
  migrations_version :: "string option"
  migrations_status :: "TenantMigrationStatus option"
  tracing_mode :: "string option"
  disable_events :: "string list option"

record Features =
  imageTransformation_enabled :: bool
  imageTransformation_maxResolution :: "int option"
  s3Protocol_enabled :: bool
  purgeCache_enabled :: bool

record TenantConfig =
  anonKey :: string
  databaseUrl :: string
  databasePoolUrl :: "string option"
  fileSizeLimit :: int
  jwtSecret :: string
  jwks :: jsval
  serviceKey :: string
  serviceKeyPayload :: serviceKeyPayload
  maxConnections :: "int option"
  features :: Features
  migrationVersion :: "string option"
  migrationStatus :: "TenantMigrationStatus option"
  migrationsRun :: bool
  tracingMode :: "string option"
  disableEvents :: "string list option"

section \<open>S3 credentials (tenant.ts)\<close>

record S3Credentials =
  accessKey :: string
  secretKey :: string
  cred_claims :: obj

text \<open>A row of the table \<open>tenants_s3_credentials\<close>. The column \<open>claims\<close> holds the JSON
  text written by \<open>JSON.stringify\<close>, modelled by the object it denotes.\<close>

record s3_row =
  row_id :: string
  tenant_id :: string
  row_description :: string
  access_key :: string
  secret_key :: string
  row_claims :: obj

text \<open>The argument \<open>data\<close> of \<open>createS3Credentials\<close>.\<close>

record credential_input =
  description :: string
  claims :: "obj option"

record created_credential =
  created_id :: string
  created_access_key :: string
  created_secret_key :: string

section \<open>Events (event.ts)\<close>

record SlowRetryQueueOptions =
  retryLimit :: int
  retryDelay :: int

text \<open>A job as handed to \<open>handle\<close>, and the argument of the queue's \<open>send\<close>.\<close>

record job =
  job_id :: string
  job_name :: string
  job_data :: obj

record send_request =
  req_name :: string
  req_data :: obj
  req_options :: "obj option"

text \<open>The static side of an event class: what a concrete event type declares or overrides.
  \<open>eventName\<close> is the class name.\<close>

record event_type =
  eventName :: string
  version :: string
  queueName :: string
  allowSync :: bool
  getQueueOptions :: "obj \<Rightarrow> obj option"
  withSlowRetryQueue :: "SlowRetryQueueOptions option"
  handle :: "job \<Rightarrow> error + jsval"

text \<open>The durable queue (\<open>Queue.getInstance()\<close>, not part of the sources): what its
  \<open>send\<close> and \<open>insert\<close> answer. Either may throw.\<close>

record queue =
  queue_send :: "send_request \<Rightarrow> error + jsval"
  queue_insert :: "obj list \<Rightarrow> error + jsval"

section \<open>The process state\<close>

text \<open>Everything a call does beyond returning is recorded: store queries, queue calls,
  handler invocations, log lines and metrics, in the order in which they happen.\<close>

datatype effect =
    TenantQuery string
  | CredentialQuery string string
  | Enqueue send_request
  | Insert "obj list"
  | Handle job
  | LogWarn string
  | TimerStart
  | TimerObserve string
  | CounterInc string

record world =
  db_tenants :: "string \<rightharpoonup> tenant_row"
  db_s3_credentials :: "s3_row list"
  tenantConfigCache :: "string \<rightharpoonup> TenantConfig"
  tenantS3CredentialsCache :: "string \<rightharpoonup> S3Credentials"
  effects :: "effect list"

definition emit :: "effect \<Rightarrow> world \<Rightarrow> world" where
  "emit e st = st\<lparr>effects := effects st @ [e]\<rparr>"

text \<open>Modelled from the spec: \<open>createMutexByKey\<close> of \<open>../concurrency\<close> is not part of the
  sources. \<open>run(key, fn)\<close> executes \<open>fn\<close> with exclusive ownership of \<open>key\<close> and leaves no
  lock state behind, also when \<open>fn\<close> fails. For a single caller the lock is free, so the
  call is that of \<open>fn\<close>.\<close>

definition mutexByKey :: "string \<Rightarrow> (world \<Rightarrow> 'a \<times> world) \<Rightarrow> world \<Rightarrow> 'a \<times> world" where
  "mutexByKey key fn st = fn st"

subsection \<open>getTenantConfig\<close>

definition deleteTenantConfig :: "string \<Rightarrow> world \<Rightarrow> world" where
  "deleteTenantConfig tenantId st =
     st\<lparr>tenantConfigCache := (tenantConfigCache st)(tenantId := None)\<rparr>"

text \<open>The configuration built from a row and the verified payload of its service key.
  \<open>x ? f(x) : undefined\<close> tests truthiness: an empty string and the number 0 count as absent.\<close>

definition build_config :: "deps \<Rightarrow> tenant_row \<Rightarrow> string \<Rightarrow> string \<Rightarrow> serviceKeyPayload \<Rightarrow> TenantConfig" where
  "build_config d tenant serviceKey' jwtSecret' payload =
     \<lparr> anonKey = decrypt d (anon_key tenant),
       databaseUrl = decrypt d (database_url tenant),
       databasePoolUrl =
         (case database_pool_url tenant of
            None \<Rightarrow> None
          | Some u \<Rightarrow> if u = [] then None else Some (decrypt d u)),
       fileSizeLimit = file_size_limit tenant,
       jwtSecret = jwtSecret',
       jwks = jwks_column tenant,
       serviceKey = serviceKey',
       serviceKeyPayload = payload,
       maxConnections =
         (case max_connections tenant of
            None \<Rightarrow> None
          | Some n \<Rightarrow> if n = 0 then None else Some n),
       features =
         \<lparr> imageTransformation_enabled = feature_image_transformation tenant,
           imageTransformation_maxResolution = image_transformation_max_resolution tenant,
           s3Protocol_enabled = feature_s3_protocol tenant,
           purgeCache_enabled = feature_purge_cache tenant \<rparr>,
       migrationVersion = migrations_version tenant,
       migrationStatus = migrations_status tenant,
       migrationsRun = False,
       tracingMode = tracing_mode tenant,
       disableEvents = disable_events tenant \<rparr>"

text \<open>The body run under the tenant's lock: the second look at the cache, the store
  query, decryption, verification of the service key, and the insertion.\<close>

definition getTenantConfig_locked :: "deps \<Rightarrow> string \<Rightarrow> world \<Rightarrow> (error + TenantConfig) \<times> world" where
  "getTenantConfig_locked d tenantId st =
     (case tenantConfigCache st tenantId of
        Some cached \<Rightarrow> (Inr cached, st)
      | None \<Rightarrow>
          (let st1 = emit (TenantQuery tenantId) st in
           case db_tenants st1 tenantId of
             None \<Rightarrow> (Inl (MissingTenantConfig tenantId), st1)
           | Some tenant \<Rightarrow>
               (let serviceKey' = decrypt d (service_key tenant);
                    jwtSecret' = decrypt d (jwt_secret tenant)
                in case verifyJWT d serviceKey' jwtSecret' of
                     Inl e \<Rightarrow> (Inl e, st1)
                   | Inr payload \<Rightarrow>
                       (let config = build_config d tenant serviceKey' jwtSecret' payload;
                            st2 = st1\<lparr>tenantConfigCache := (tenantConfigCache st1)(tenantId \<mapsto> config)\<rparr>
                        in case tenantConfigCache st2 tenantId of
                             Some stored \<Rightarrow> (Inr stored, st2)
                           | None \<Rightarrow> (Inl TypeError, st2)))))"

definition getTenantConfig :: "deps \<Rightarrow> string \<Rightarrow> world \<Rightarrow> (error + TenantConfig) \<times> world" where
  "getTenantConfig d tenantId st =
     (if tenantId = [] then (Inl InvalidTenantId, st)
      else case tenantConfigCache st tenantId of
             Some cached \<Rightarrow> (Inr cached, st)
           | None \<Rightarrow> mutexByKey tenantId (getTenantConfig_locked d tenantId) st)"

text \<open>How many times the store was asked for the row of a tenant.\<close>

definition tenant_queries :: "world \<Rightarrow> string \<Rightarrow> nat" where
  "tenant_queries st tenantId = length (filter (\<lambda>e. e = TenantQuery tenantId) (effects st))"

subsection \<open>Invalidation messages\<close>

definition TENANTS_UPDATE_CHANNEL :: string where
  "TENANTS_UPDATE_CHANNEL = ''tenants_update''"

definition TENANTS_S3_CREDENTIALS_UPDATE_CHANNEL :: string where
  "TENANTS_S3_CREDENTIALS_UPDATE_CHANNEL = ''tenants_s3_credentials_update''"

text \<open>\<open>listenForTenantUpdate\<close> subscribes one handler to each channel. This is what the two
  handlers do when the message \<open>cacheKey\<close> arrives on \<open>channel\<close>.\<close>

definition listenForTenantUpdate_message :: "string \<Rightarrow> string \<Rightarrow> world \<Rightarrow> world" where
  "listenForTenantUpdate_message channel cacheKey st =
     (let st1 = (if channel = TENANTS_UPDATE_CHANNEL
                 then st\<lparr>tenantConfigCache := (tenantConfigCache st)(cacheKey := None)\<rparr>
                 else st)
      in if channel = TENANTS_S3_CREDENTIALS_UPDATE_CHANNEL
         then st1\<lparr>tenantS3CredentialsCache := (tenantS3CredentialsCache st1)(cacheKey := None)\<rparr>
         else st1)"

subsection \<open>S3 credentials\<close>

text \<open>\<open>countS3Credentials\<close>. The count query is awaited as it is, without \<open>.first()\<close>,
  and such a query resolves to the array of its result rows: here one row that holds
  the count. The function reads \<open>count\<close> of that array.\<close>

definition count_query :: "string \<Rightarrow> world \<Rightarrow> jsval" where
  "count_query tenantId st =
     JArr [JObj [(''count'',
                  JNum (int (length (filter (\<lambda>r. tenant_id r = tenantId) (db_s3_credentials st)))))]]"

definition countS3Credentials :: "deps \<Rightarrow> string \<Rightarrow> world \<Rightarrow> int option" where
  "countS3Credentials d tenantId st =
     (let data = count_query tenantId st
      in Number d (or_else (optional_get data ''count'') (JNum 0)))"

text \<open>\<open>buffer.toString('hex')\<close>: two lower-case digits for each byte.\<close>

definition hex_digit :: "nat \<Rightarrow> char" where
  "hex_digit n = ''0123456789abcdef'' ! (n mod 16)"

definition toString_hex :: "8 word list \<Rightarrow> string" where
  "toString_hex bytes =
     concat (map (\<lambda>b. [hex_digit (unat b div 16), hex_digit (unat b mod 16)]) bytes)"

text \<open>\<open>a ?? b\<close>.\<close>

definition nullish_or :: "jsval \<Rightarrow> jsval \<Rightarrow> jsval" where
  "nullish_or a b = (if a = JUndefined \<or> a = JNull then b else a)"

text \<open>The claims as rebuilt before they are stored: the four \<open>delete\<close>s on a supplied
  claims object, then the object literal with its spread and its three properties.\<close>

definition stripped_claims :: "obj option \<Rightarrow> obj option" where
  "stripped_claims cl =
     (case cl of
        None \<Rightarrow> None
      | Some c \<Rightarrow>
          Some (obj_delete ''iat'' (obj_delete ''exp'' (obj_delete ''issuer'' (obj_delete ''iss'' c)))))"

definition rebuilt_claims :: "config \<Rightarrow> string \<Rightarrow> obj option \<Rightarrow> obj" where
  "rebuilt_claims cfg tenantId cl =
     obj_set ''sub'' (case cl of None \<Rightarrow> JUndefined | Some c \<Rightarrow> obj_get c ''sub'')
       (obj_set ''issuer'' (JStr (''supabase.storage.'' @ tenantId))
          (obj_set ''role''
             (nullish_or (case cl of None \<Rightarrow> JUndefined | Some c \<Rightarrow> obj_get c ''role'')
                (JStr (dbServiceRole cfg)))
             (spread [] (case cl of None \<Rightarrow> [] | Some c \<Rightarrow> c))))"

text \<open>\<open>createS3Credentials\<close>. The two results of \<open>crypto.randomBytes\<close> and the identifier
  that the store gives the new row are arguments. A comparison with \<open>NaN\<close> is false.\<close>

definition createS3Credentials ::
  "config \<Rightarrow> deps \<Rightarrow> 8 word list \<Rightarrow> 8 word list \<Rightarrow> string \<Rightarrow> string \<Rightarrow> credential_input \<Rightarrow> world
     \<Rightarrow> (error + created_credential) \<times> world" where
  "createS3Credentials cfg d randomBytes32 randomBytes64 returned_id tenantId input st =
     (let existingCount = countS3Credentials d tenantId st in
      if (case existingCount of None \<Rightarrow> False | Some n \<Rightarrow> n \<ge> 50)
      then (Inl MaximumCredentialsLimit, st)
      else
        (let secretAccessKeyId = take 32 (toString_hex randomBytes32);
             secretAccessKey = take 64 (toString_hex randomBytes64);
             claims' = rebuilt_claims cfg tenantId (stripped_claims (claims input));
             row = \<lparr> row_id = returned_id,
                     tenant_id = tenantId,
                     row_description = description input,
                     access_key = secretAccessKeyId,
                     secret_key = encrypt d secretAccessKey,
                     row_claims = JSON_stringify claims' \<rparr>
         in (Inr \<lparr> created_id = returned_id,
                    created_access_key = secretAccessKeyId,
                    created_secret_key = secretAccessKey \<rparr>,
             st\<lparr>db_s3_credentials := db_s3_credentials st @ [row]\<rparr>)))"

text \<open>\<open>getS3CredentialsByAccessKey\<close>. The cache is an \<open>LRUCache\<close> of the library
  \<open>lru-cache\<close>; its expiry and eviction, which only remove entries, are not modelled.\<close>

definition getS3CredentialsByAccessKey_locked ::
  "deps \<Rightarrow> string \<Rightarrow> string \<Rightarrow> string \<Rightarrow> world \<Rightarrow> (error + S3Credentials) \<times> world" where
  "getS3CredentialsByAccessKey_locked d tenantId accessKey' cacheKey st =
     (case tenantS3CredentialsCache st cacheKey of
        Some cachedCredentials \<Rightarrow> (Inr cachedCredentials, st)
      | None \<Rightarrow>
          (let st1 = emit (CredentialQuery tenantId accessKey') st in
           case find (\<lambda>r. tenant_id r = tenantId \<and> access_key r = accessKey') (db_s3_credentials st1) of
             None \<Rightarrow> (Inl MissingS3Credentials, st1)
           | Some row \<Rightarrow>
               (let secretKey' = decrypt d (secret_key row);
                    creds = \<lparr> accessKey = access_key row, secretKey = secretKey',
                              cred_claims = row_claims row \<rparr>
                in (Inr creds,
                    st1\<lparr>tenantS3CredentialsCache := (tenantS3CredentialsCache st1)(cacheKey \<mapsto> creds)\<rparr>))))"

definition getS3CredentialsByAccessKey ::
  "deps \<Rightarrow> string \<Rightarrow> string \<Rightarrow> world \<Rightarrow> (error + S3Credentials) \<times> world" where
  "getS3CredentialsByAccessKey d tenantId accessKey' st =
     (let cacheKey = tenantId @ '':'' @ accessKey' in
      case tenantS3CredentialsCache st cacheKey of
        Some cachedCredentials \<Rightarrow> (Inr cachedCredentials, st)
      | None \<Rightarrow>
          mutexByKey cacheKey (getS3CredentialsByAccessKey_locked d tenantId accessKey' cacheKey) st)"

text \<open>\<open>deleteS3Credential\<close>: the store deletes the rows of the tenant with the given
  identifier and returns their identifiers.\<close>

definition deleteS3Credential :: "string \<Rightarrow> string \<Rightarrow> world \<Rightarrow> string list \<times> world" where
  "deleteS3Credential tenantId credentialId st =
     (map row_id (filter (\<lambda>r. tenant_id r = tenantId \<and> row_id r = credentialId) (db_s3_credentials st)),
      st\<lparr>db_s3_credentials :=
            filter (\<lambda>r. \<not> (tenant_id r = tenantId \<and> row_id r = credentialId)) (db_s3_credentials st)\<rparr>)"

section \<open>Event dispatch (event.ts)\<close>

text \<open>\<open>getQueueName\<close> and \<open>getSlowRetryQueueName\<close> throw when the class has no queue name.
  They are static methods, so \<open>this.constructor.name\<close> in the message is \<open>Function\<close>.\<close>

definition getQueueName :: "event_type \<Rightarrow> error + string" where
  "getQueueName ev =
     (if queueName ev = [] then Inl (Error ''Queue name not set on Function'')
      else Inr (queueName ev))"

definition getSlowRetryQueueName :: "event_type \<Rightarrow> error + string" where
  "getSlowRetryQueueName ev =
     (if queueName ev = [] then Inl (Error ''Queue name not set on Function'')
      else Inr (queueName ev @ ''-slow''))"

text \<open>\<open>payload.tenant.ref\<close>. Reading \<open>ref\<close> of an absent tenant throws a \<open>TypeError\<close>. The
  reference is declared a string; an absent one is falsy like the empty string, and a
  value of another type is outside the declared input and read as the empty string too.\<close>

definition tenant_ref :: "obj \<Rightarrow> error + string" where
  "tenant_ref payload =
     (case obj_get payload ''tenant'' of
        JUndefined \<Rightarrow> Inl TypeError
      | JNull \<Rightarrow> Inl TypeError
      | JObj tenant \<Rightarrow> (case obj_get tenant ''ref'' of JStr r \<Rightarrow> Inr r | _ \<Rightarrow> Inr [])
      | _ \<Rightarrow> Inr [])"

definition shouldSend :: "config \<Rightarrow> deps \<Rightarrow> event_type \<Rightarrow> obj \<Rightarrow> world \<Rightarrow> (error + bool) \<times> world" where
  "shouldSend cfg d ev payload st =
     (if isMultitenant cfg then
        (case tenant_ref payload of
           Inl e \<Rightarrow> (Inl e, st)
         | Inr ref \<Rightarrow>
             (case getTenantConfig d ref st of
                (Inl e, st1) \<Rightarrow> (Inl e, st1)
              | (Inr tenant, st1) \<Rightarrow>
                  (let disabledEvents = (case disableEvents tenant of None \<Rightarrow> [] | Some evs \<Rightarrow> evs)
                   in if eventName ev \<in> set disabledEvents then (Inr False, st1)
                      else (Inr True, st1))))
      else (Inr True, st))"

text \<open>The \<open>try\<close> block of \<open>send\<close>: the enqueue and the counter.\<close>

definition send_try ::
  "config \<Rightarrow> queue \<Rightarrow> event_type \<Rightarrow> obj \<Rightarrow> obj option \<Rightarrow> world \<Rightarrow> (error + jsval) \<times> world" where
  "send_try cfg q ev payload sendOptions st =
     (case getQueueName ev of
        Inl e \<Rightarrow> (Inl e, st)
      | Inr n \<Rightarrow>
          (let req = \<lparr> req_name = n,
                       req_data = obj_set ''$version'' (JStr (version ev))
                                    (spread [(''region'', JStr (region cfg))] payload),
                       req_options = sendOptions \<rparr>;
               st1 = emit (Enqueue req) st
           in case queue_send q req of
                Inl e \<Rightarrow> (Inl e, st1)
              | Inr res \<Rightarrow>
                  (case getQueueName ev of
                     Inl e \<Rightarrow> (Inl e, st1)
                   | Inr n' \<Rightarrow> (Inr res, emit (CounterInc n') st1))))"

text \<open>The \<open>catch\<close> block: the warning, then the handler on a synthetic job.\<close>

definition send_catch :: "config \<Rightarrow> event_type \<Rightarrow> obj \<Rightarrow> world \<Rightarrow> (error + jsval) \<times> world" where
  "send_catch cfg ev payload st =
     (let st1 = emit (LogWarn ''[Queue Sender] Error while sending job to queue, sending synchronously'') st
      in case getQueueName ev of
           Inl e \<Rightarrow> (Inl e, st1)
         | Inr n \<Rightarrow>
             (let j = \<lparr> job_id = ''__sync'',
                        job_name = n,
                        job_data = obj_set ''$version'' (JStr (version ev))
                                     (spread [(''region'', JStr (region cfg))] payload) \<rparr>
              in (handle ev j, emit (Handle j) st1)))"

text \<open>The \<open>finally\<close> block: the timer is observed under the queue name; an error thrown
  here replaces the outcome of the blocks before.\<close>

definition send_finally :: "event_type \<Rightarrow> (error + jsval) \<times> world \<Rightarrow> (error + jsval) \<times> world" where
  "send_finally ev out =
     (case getQueueName ev of
        Inl e \<Rightarrow> (Inl e, snd out)
      | Inr n \<Rightarrow> (fst out, emit (TimerObserve n) (snd out)))"

text \<open>The instance method \<open>send\<close>. A call that returns nothing returns \<open>undefined\<close>.\<close>

definition send ::
  "config \<Rightarrow> deps \<Rightarrow> queue \<Rightarrow> event_type \<Rightarrow> obj \<Rightarrow> world \<Rightarrow> (error + jsval) \<times> world" where
  "send cfg d q ev payload st =
     (case shouldSend cfg d ev payload st of
        (Inl e, st1) \<Rightarrow> (Inl e, st1)
      | (Inr shouldSend', st1) \<Rightarrow>
          if \<not> shouldSend' then (Inr JUndefined, st1)
          else if \<not> pgQueueEnable cfg then
            (if allowSync ev then
               (case getQueueName ev of
                  Inl e \<Rightarrow> (Inl e, st1)
                | Inr n \<Rightarrow>
                    (let j = \<lparr> job_id = ''__sync'',
                               job_name = n,
                               job_data = obj_set ''$version'' (JStr (version ev))
                                            (spread [(''region'', JStr (region cfg))] payload) \<rparr>
                     in (handle ev j, emit (Handle j) st1)))
             else (Inr JUndefined, emit (LogWarn ''[Queue] skipped sending message'') st1))
          else
            (let st2 = emit TimerStart st1;
                 sendOptions = getQueueOptions ev payload;
                 sendOptions' =
                   (if truthy (obj_get payload ''scheduleAt'')
                    then Some (obj_set ''startAfter'' (new_Date d (obj_get payload ''scheduleAt''))
                                 (case sendOptions of None \<Rightarrow> [] | Some so \<Rightarrow> so))
                    else sendOptions)
             in send_finally ev
                  (case send_try cfg q ev payload sendOptions' st2 of
                     (Inl e, st3) \<Rightarrow> send_catch cfg ev payload st3
                   | (Inr res, st3) \<Rightarrow> (Inr res, st3))))"

text \<open>The static \<open>send\<close>: the payload is stamped when it has no version, then sent.\<close>

definition static_send ::
  "config \<Rightarrow> deps \<Rightarrow> queue \<Rightarrow> event_type \<Rightarrow> obj \<Rightarrow> world \<Rightarrow> (error + jsval) \<times> world" where
  "static_send cfg d q ev payload st =
     send cfg d q ev
       (if \<not> truthy (obj_get payload ''$version'')
        then obj_set ''$version'' (JStr (version ev)) payload else payload) st"

text \<open>\<open>sendSlowRetryQueue\<close>. The options literal starts from the two defaults and spreads
  the event's queue options and then its slow-retry policy over them.\<close>

definition slowRetry_obj :: "SlowRetryQueueOptions \<Rightarrow> obj" where
  "slowRetry_obj pol = [(''retryLimit'', JNum (retryLimit pol)), (''retryDelay'', JNum (retryDelay pol))]"

definition sendSlowRetryQueue ::
  "config \<Rightarrow> queue \<Rightarrow> event_type \<Rightarrow> obj \<Rightarrow> world \<Rightarrow> (error + jsval) \<times> world" where
  "sendSlowRetryQueue cfg q ev payload st =
     (let slowRetryQueue = withSlowRetryQueue ev in
      if \<not> pgQueueEnable cfg \<or> slowRetryQueue = None then (Inr JUndefined, st)
      else
        (let st1 = emit TimerStart st;
             sendOptions = (case getQueueOptions ev payload of None \<Rightarrow> [] | Some so \<Rightarrow> so)
         in case getSlowRetryQueueName ev of
              Inl e \<Rightarrow> (Inl e, st1)
            | Inr n \<Rightarrow>
                (let req = \<lparr> req_name = n,
                             req_data = obj_set ''$version'' (JStr (version ev))
                                          (spread [(''region'', JStr (region cfg))] payload),
                             req_options =
                               Some (spread
                                       (spread [(''retryBackoff'', JBool True),
                                                (''startAfter'', JNum (60 * 60 * 30))]
                                          sendOptions)
                                       (case slowRetryQueue of
                                          None \<Rightarrow> []
                                        | Some policy \<Rightarrow> slowRetry_obj policy)) \<rparr>;
                     st2 = emit (Enqueue req) st1
                 in case queue_send q req of
                      Inl e \<Rightarrow> (Inl e, st2)
                    | Inr res \<Rightarrow>
                        (case getSlowRetryQueueName ev of
                           Inl e \<Rightarrow> (Inl e, st2)
                         | Inr n' \<Rightarrow> (Inr res, emit (CounterInc n') (emit (TimerObserve n') st2))))))"

definition static_sendSlowRetryQueue ::
  "config \<Rightarrow> queue \<Rightarrow> event_type \<Rightarrow> obj \<Rightarrow> world \<Rightarrow> (error + jsval) \<times> world" where
  "static_sendSlowRetryQueue cfg q ev payload st =
     sendSlowRetryQueue cfg q ev
       (if \<not> truthy (obj_get payload ''$version'')
        then obj_set ''$version'' (JStr (version ev)) payload else payload) st"

text \<open>\<open>batchSend\<close>. The function mapped over the messages builds one job of the bulk
  insert from a message's payload, with the queue name and version of the class on which
  \<open>batchSend\<close> is called.\<close>

definition batch_job :: "deps \<Rightarrow> event_type \<Rightarrow> obj \<Rightarrow> error + obj" where
  "batch_job d ev payload =
     (let sendOptions = (case getQueueOptions ev payload of None \<Rightarrow> [] | Some so \<Rightarrow> so);
          payload' = (if \<not> truthy (obj_get payload ''$version'')
                      then obj_set ''$version'' (JStr (version ev)) payload else payload);
          sendOptions' = (if truthy (obj_get payload' ''scheduleAt'')
                          then obj_set ''startAfter'' (new_Date d (obj_get payload' ''scheduleAt'')) sendOptions
                          else sendOptions)
      in case getQueueName ev of
           Inl e \<Rightarrow> Inl e
         | Inr n \<Rightarrow>
             Inr (obj_set ''data'' (JObj payload') (obj_set ''name'' (JStr n) (spread [] sendOptions'))))"

fun batch_jobs :: "deps \<Rightarrow> event_type \<Rightarrow> obj list \<Rightarrow> error + obj list" where
  "batch_jobs d ev [] = Inr []"
| "batch_jobs d ev (payload # rest) =
     (case batch_job d ev payload of
        Inl e \<Rightarrow> Inl e
      | Inr j \<Rightarrow> (case batch_jobs d ev rest of Inl e \<Rightarrow> Inl e | Inr js \<Rightarrow> Inr (j # js)))"

text \<open>With the queue disabled every message is sent by its own \<open>send\<close>. The sends are
  started in order; each is run here to its end before the next. \<open>Promise.all\<close> gives
  the array of the results, or the error of a send that failed.\<close>

fun send_all ::
  "config \<Rightarrow> deps \<Rightarrow> queue \<Rightarrow> (event_type \<times> obj) list \<Rightarrow> world \<Rightarrow> (error + jsval) list \<times> world" where
  "send_all cfg d q [] st = ([], st)"
| "send_all cfg d q (m # ms) st =
     (case send cfg d q (fst m) (snd m) st of
        (r, st1) \<Rightarrow> (case send_all cfg d q ms st1 of (rs, st2) \<Rightarrow> (r # rs, st2)))"

fun Promise_all :: "(error + jsval) list \<Rightarrow> error + jsval list" where
  "Promise_all [] = Inr []"
| "Promise_all (Inl e # rs) = Inl e"
| "Promise_all (Inr v # rs) = (case Promise_all rs of Inl e \<Rightarrow> Inl e | Inr vs \<Rightarrow> Inr (v # vs))"

definition batchSend ::
  "config \<Rightarrow> deps \<Rightarrow> queue \<Rightarrow> event_type \<Rightarrow> (event_type \<times> obj) list \<Rightarrow> world \<Rightarrow> (error + jsval) \<times> world" where
  "batchSend cfg d q ev messages st =
     (if \<not> pgQueueEnable cfg then
        (if allowSync ev then
           (case send_all cfg d q messages st of
              (rs, st1) \<Rightarrow> (case Promise_all rs of Inl e \<Rightarrow> (Inl e, st1) | Inr vs \<Rightarrow> (Inr (JArr vs), st1)))
         else (Inr JUndefined, emit (LogWarn ''[Queue] skipped sending batch messages'') st))
      else
        (case batch_jobs d ev (map snd messages) of
           Inl e \<Rightarrow> (Inl e, st)
         | Inr jobs \<Rightarrow> (queue_insert q jobs, emit (Insert jobs) st)))"

text \<open>The requests that reached the queue's \<open>send\<close>, and the jobs given to a handler.\<close>

fun enqueued :: "effect list \<Rightarrow> send_request list" where
  "enqueued [] = []"
| "enqueued (Enqueue r # es) = r # enqueued es"
| "enqueued (e # es) = enqueued es"

fun inserted :: "effect list \<Rightarrow> obj list list" where
  "inserted [] = []"
| "inserted (Insert js # es) = js # inserted es"
| "inserted (e # es) = inserted es"

fun handled :: "effect list \<Rightarrow> job list" where
  "handled [] = []"
| "handled (Handle j # es) = j # handled es"
| "handled (e # es) = handled es"

section \<open>Concurrent callers of getTenantConfig\<close>

text \<open>
  JavaScript runs one caller at a time and switches callers only where a caller awaits.
  A call of \<open>getTenantConfig\<close> awaits three times: for the lock of its tenant, for the
  row from the store, and for \<open>verifyJWT\<close>. Between two awaits it runs without
  interruption. A caller is therefore at one of these places:
\<close>

datatype place =
    AtEntry
  | AwaitingLock
  | AwaitingStore
  | AwaitingVerify tenant_row
  | Returned "error + TenantConfig"

text \<open>Modelled from the spec: \<open>createMutexByKey\<close> of \<open>../concurrency\<close> is not part of the
  sources. A key has at most one owner; a caller that asks for an owned key waits until
  the key is free; ownership ends when the function run under the lock returns or
  fails. Which of several waiting callers is served first is left open.

  The state of a race is the shared process state, the owner of each key of the tenant
  mutex, and the place of every caller. Callers are numbered.\<close>

record race =
  shared :: world
  owner :: "string \<rightharpoonup> nat"
  place_of :: "nat \<Rightarrow> place"

text \<open>The next uninterrupted piece of caller \<open>i\<close>, who called
  \<open>getTenantConfig (tenantOf i)\<close>; \<open>None\<close> when the caller cannot run (it waits for a lock
  that is owned, or it has returned).
  \<^item> At the entry: the check of the identifier, the first look at the cache, and the
    request for the lock.
  \<^item> When the lock is free: the second look at the cache and, on a miss, the query sent
    to the store.
  \<^item> When the store answers: no row fails and frees the lock; a row is decrypted and
    handed to \<open>verifyJWT\<close>.
  \<^item> When \<open>verifyJWT\<close> answers: a failure frees the lock; otherwise the configuration is
    built and cached, the lock is freed, and the cached value is returned.\<close>

definition caller_step :: "deps \<Rightarrow> (nat \<Rightarrow> string) \<Rightarrow> nat \<Rightarrow> race \<Rightarrow> race option" where
  "caller_step d tenantOf i c =
     (let tenantId = tenantOf i; st = shared c in
      case place_of c i of
        AtEntry \<Rightarrow>
          if tenantId = [] then Some (c\<lparr>place_of := (place_of c)(i := Returned (Inl InvalidTenantId))\<rparr>)
          else (case tenantConfigCache st tenantId of
                  Some cached \<Rightarrow> Some (c\<lparr>place_of := (place_of c)(i := Returned (Inr cached))\<rparr>)
                | None \<Rightarrow> Some (c\<lparr>place_of := (place_of c)(i := AwaitingLock)\<rparr>))
      | AwaitingLock \<Rightarrow>
          (case owner c tenantId of
             Some other \<Rightarrow> None
           | None \<Rightarrow>
               (case tenantConfigCache st tenantId of
                  Some cached \<Rightarrow> Some (c\<lparr>place_of := (place_of c)(i := Returned (Inr cached))\<rparr>)
                | None \<Rightarrow>
                    Some (c\<lparr>shared := emit (TenantQuery tenantId) st,
                            owner := (owner c)(tenantId \<mapsto> i),
                            place_of := (place_of c)(i := AwaitingStore)\<rparr>)))
      | AwaitingStore \<Rightarrow>
          (case db_tenants st tenantId of
             None \<Rightarrow>
               Some (c\<lparr>owner := (owner c)(tenantId := None),
                       place_of := (place_of c)(i := Returned (Inl (MissingTenantConfig tenantId)))\<rparr>)
           | Some tenant \<Rightarrow> Some (c\<lparr>place_of := (place_of c)(i := AwaitingVerify tenant)\<rparr>))
      | AwaitingVerify tenant \<Rightarrow>
          (let serviceKey' = decrypt d (service_key tenant);
               jwtSecret' = decrypt d (jwt_secret tenant)
           in case verifyJWT d serviceKey' jwtSecret' of
                Inl e \<Rightarrow>
                  Some (c\<lparr>owner := (owner c)(tenantId := None),
                          place_of := (place_of c)(i := Returned (Inl e))\<rparr>)
              | Inr payload \<Rightarrow>
                  (let config = build_config d tenant serviceKey' jwtSecret' payload;
                       st2 = st\<lparr>tenantConfigCache := (tenantConfigCache st)(tenantId \<mapsto> config)\<rparr>
                   in case tenantConfigCache st2 tenantId of
                        Some stored \<Rightarrow>
                          Some (c\<lparr>shared := st2,
                                  owner := (owner c)(tenantId := None),
                                  place_of := (place_of c)(i := Returned (Inr stored))\<rparr>)
                      | None \<Rightarrow>
                          Some (c\<lparr>shared := st2,
                                  owner := (owner c)(tenantId := None),
                                  place_of := (place_of c)(i := Returned (Inl TypeError))\<rparr>)))
      | Returned r \<Rightarrow> None)"

text \<open>A schedule names the caller that runs next, one piece after the other. It is
  possible when every caller it names can run at its turn.\<close>

fun run :: "deps \<Rightarrow> (nat \<Rightarrow> string) \<Rightarrow> nat list \<Rightarrow> race \<Rightarrow> race option" where
  "run d tenantOf [] c = Some c"
| "run d tenantOf (i # schedule) c =
     (case caller_step d tenantOf i c of
        None \<Rightarrow> None
      | Some c' \<Rightarrow> run d tenantOf schedule c')"

text \<open>What holds of one tenant throughout a race that started with the tenant
  uncached, its lock free and \<open>q0\<close> queries so far, when the store has the row \<open>tenant\<close>
  and the configuration built from it is \<open>config\<close>: the lock is free before the one
  query or after the insertion, and owned in between by the caller who awaits.\<close>

definition single_flight_inv ::
  "(nat \<Rightarrow> string) \<Rightarrow> string \<Rightarrow> nat \<Rightarrow> tenant_row \<Rightarrow> TenantConfig \<Rightarrow> race \<Rightarrow> bool" where
  "single_flight_inv tenantOf t q0 tenant config c =
     (db_tenants (shared c) t = Some tenant
      \<and> (case owner c t of
            None \<Rightarrow>
              tenantConfigCache (shared c) t = None \<and> tenant_queries (shared c) t = q0
              \<or> tenantConfigCache (shared c) t = Some config \<and> tenant_queries (shared c) t = q0 + 1
          | Some i \<Rightarrow>
              tenantOf i = t \<and> tenantConfigCache (shared c) t = None
              \<and> tenant_queries (shared c) t = q0 + 1
              \<and> (place_of c i = AwaitingStore \<or> place_of c i = AwaitingVerify tenant))
      \<and> (\<forall>j. tenantOf j = t \<and> (place_of c j = AwaitingStore \<or> (\<exists>r. place_of c j = AwaitingVerify r))
             \<longrightarrow> owner c t = Some j)
      \<and> (\<forall>j r. tenantOf j = t \<and> t \<noteq> [] \<and> place_of c j = Returned r \<longrightarrow> r = Inr config))"

section \<open>Example inputs\<close>

text \<open>Concrete inputs on which the theorems below are run: a multi-tenant deployment
  with the queue enabled, three tenants of which \<open>t1\<close> has disabled the event
  \<open>Webhook\<close> and \<open>t3\<close> has a service key that no longer verifies, an event type, and a
  queue that accepts and one that refuses every job.\<close>

definition example_config :: config where
  "example_config =
     \<lparr> pgQueueEnable = True, region = ''us-east-1'', isMultitenant = True,
       dbServiceRole = ''service_role'' \<rparr>"

definition example_deps :: deps where
  "example_deps =
     \<lparr> decrypt = (\<lambda>s. drop 4 s),
       encrypt = (\<lambda>s. ''enc:'' @ s),
       verifyJWT = (\<lambda>token secret.
          if secret = ''jwt-secret'' then Inr \<lparr> role = ''service_role'' \<rparr>
          else Inl (Error ''invalid signature'')),
       Date_value = (\<lambda>v. if v = JStr ''2026-01-01T00:00:00.000Z'' then Some 1767225600000 else None),
       to_number = (\<lambda>v. if v = JNull then Some 0 else None) \<rparr>"

definition example_row :: "string list option \<Rightarrow> tenant_row" where
  "example_row disabled =
     \<lparr> anon_key = ''enc:anon'',
       database_url = ''enc:postgres://db'',
       file_size_limit = 52428800,
       jwt_secret = ''enc:jwt-secret'',
       jwks_column = JNull,
       service_key = ''enc:service-key'',
       feature_purge_cache = False,
       feature_image_transformation = True,
       feature_s3_protocol = True,
       image_transformation_max_resolution = None,
       database_pool_url = None,
       max_connections = None,
       migrations_version = None,
       migrations_status = None,
       tracing_mode = None,
       disable_events = disabled \<rparr>"

definition example_world :: world where
  "example_world =
     \<lparr> db_tenants = [''t1'' \<mapsto> example_row (Some [''Webhook'']),
                     ''t2'' \<mapsto> example_row None,
                     ''t3'' \<mapsto> (example_row None)\<lparr>jwt_secret := ''enc:rotated''\<rparr>],
       db_s3_credentials = [],
       tenantConfigCache = Map.empty,
       tenantS3CredentialsCache = Map.empty,
       effects = [] \<rparr>"

definition Webhook :: event_type where
  "Webhook =
     \<lparr> eventName = ''Webhook'',
       version = ''v1'',
       queueName = ''webhooks'',
       allowSync = True,
       getQueueOptions = (\<lambda>payload. None),
       withSlowRetryQueue = Some \<lparr> retryLimit = 5, retryDelay = 3600 \<rparr>,
       handle = (\<lambda>j. Inr (JStr (''handled by '' @ job_id j))) \<rparr>"

definition example_payload :: "string \<Rightarrow> obj" where
  "example_payload tenant =
     [(''tenant'', JObj [(''ref'', JStr tenant), (''host'', JStr ''example.test'')]),
      (''event'', JStr ''ObjectCreated:Put'')]"

definition working_queue :: queue where
  "working_queue =
     \<lparr> queue_send = (\<lambda>req. Inr (JStr ''job-1'')), queue_insert = (\<lambda>jobs. Inr JNull) \<rparr>"

definition failing_queue :: queue where
  "failing_queue =
     \<lparr> queue_send = (\<lambda>req. Inl (Error ''connection refused'')),
       queue_insert = (\<lambda>jobs. Inl (Error ''connection refused'')) \<rparr>"

text \<open>Stores that hold \<open>n\<close> credentials of tenant \<open>t1\<close>, a credential request whose
  claims try to set the issuer and the timing claims, and one without claims.\<close>

primrec example_credentials :: "nat \<Rightarrow> s3_row list" where
  "example_credentials 0 = []"
| "example_credentials (Suc n) =
     example_credentials n @
       [\<lparr> row_id = ''cred-'' @ replicate n (CHR ''i''),
          tenant_id = ''t1'',
          row_description = ''existing'',
          access_key = ''AK'' @ replicate n (CHR ''i''),
          secret_key = ''enc:secret'',
          row_claims = [(''role'', JStr ''service_role''), (''issuer'', JStr ''supabase.storage.t1'')] \<rparr>]"

definition example_store :: "nat \<Rightarrow> world" where
  "example_store n = example_world\<lparr>db_s3_credentials := example_credentials n\<rparr>"

definition example_bytes :: "nat \<Rightarrow> 8 word list" where
  "example_bytes n = replicate n 171"

definition forged_input :: credential_input where
  "forged_input =
     \<lparr> description = ''ci key'',
       claims = Some [(''iss'', JStr ''attacker''), (''issuer'', JStr ''attacker''),
                      (''exp'', JNum 1), (''iat'', JNum 2),
                      (''role'', JStr ''authenticated''), (''sub'', JStr ''user-1'')] \<rparr>"

definition plain_input :: credential_input where
  "plain_input = \<lparr> description = ''ci key'', claims = None \<rparr>"

text \<open>A payload for tenant \<open>t2\<close> whose caller has set a version and a start time.\<close>

definition scheduled_payload :: obj where
  "scheduled_payload =
     [(''$version'', JStr ''v0''),
      (''tenant'', JObj [(''ref'', JStr ''t2''), (''host'', JStr ''example.test'')]),
      (''scheduleAt'', JDate 1767225600000)]"

text \<open>The store with one credential of \<open>t1\<close>, after that credential was looked up by
  its access key, so that the credential cache holds it.\<close>

definition cached_credential_world :: world where
  "cached_credential_world =
     snd (getS3CredentialsByAccessKey example_deps ''t1'' ''AK'' (example_store (Suc 0)))"

text \<open>The start of a race on first access: nothing is cached, no lock is owned, and
  every caller stands at the entry of \<open>getTenantConfig\<close>.\<close>

definition race_start :: race where
  "race_start = \<lparr> shared = example_world, owner = Map.empty, place_of = (\<lambda>i. AtEntry) \<rparr>"

text \<open>The configuration of tenant \<open>t2\<close> has been cached, and the row of \<open>t2\<close> has since
  been deleted from the store.\<close>

definition stale_cache_world :: world where
  "stale_cache_world =
     (snd (getTenantConfig example_deps ''t2'' example_world))
       \<lparr>db_tenants := (db_tenants example_world)(''t2'' := None)\<rparr>"

section \<open>Properties\<close>

subsection \<open>Effects\<close>

lemma effects_emit: "effects (emit e st) = effects st @ [e]"
  by (simp add: emit_def)

lemma enqueued_append: "enqueued (xs @ ys) = enqueued xs @ enqueued ys"
  by (induction xs rule: enqueued.induct) simp_all

lemma handled_append: "handled (xs @ ys) = handled xs @ handled ys"
  by (induction xs rule: handled.induct) simp_all

lemma inserted_append: "inserted (xs @ ys) = inserted xs @ inserted ys"
  by (induction xs rule: inserted.induct) simp_all

lemma tenant_queries_emit:
  "tenant_queries (emit e st) t = tenant_queries st t + (if e = TenantQuery t then 1 else 0)"
  by (simp add: tenant_queries_def emit_def)

lemma map_of_obj_set: "map_of (obj_set k v ob) k' = (if k' = k then Some v else map_of ob k')"
  by (induction ob) auto


subsection \<open>Unfolding sets\<close>

lemmas example_defs =
  example_config_def example_deps_def example_row_def example_world_def Webhook_def
  example_payload_def working_queue_def failing_queue_def

lemmas send_defs =
  send_def send_try_def send_catch_def send_finally_def getQueueName_def shouldSend_def
  tenant_ref_def getTenantConfig_def mutexByKey_def getTenantConfig_locked_def build_config_def
  spread_def obj_get_def emit_def Let_def


subsection \<open>The tenant lookup\<close>

lemma getTenantConfig_effects:
  "effects (snd (getTenantConfig d t st)) = effects st
   \<or> effects (snd (getTenantConfig d t st)) = effects st @ [TenantQuery t]"
  by (simp add: getTenantConfig_def mutexByKey_def getTenantConfig_locked_def Let_def effects_emit
      split: option.splits sum.splits)

subsection \<open>Fallback to the handler when the enqueue fails\<close>

text \<open>
  Claim C1. The suppression check passes (\<open>shouldSend\<close> returns true) and the queue is
  enabled. If this call of \<open>send\<close> hands a request to the queue and the queue throws on
  it, then \<open>send\<close> calls the handler of the event type exactly once, on a job whose id
  is \<open>__sync\<close> and whose data is the data of the request that failed, and what \<open>send\<close>
  returns is what the handler returns: the queue's error is not the outcome.
\<close>

theorem send_enqueue_failure_runs_handler:
  assumes passes: "shouldSend cfg d ev payload st = (Inr True, st1)"
      and enabled: "pgQueueEnable cfg"
      and attempt: "enqueued (effects (snd (send cfg d q ev payload st))) = enqueued (effects st1) @ [req]"
      and throws: "queue_send q req = Inl e"
  shows "\<exists>j. handled (effects (snd (send cfg d q ev payload st))) = handled (effects st1) @ [j]
            \<and> job_id j = ''__sync'' \<and> job_data j = req_data req
            \<and> fst (send cfg d q ev payload st) = handle ev j"
proof (cases "queueName ev = []")
  case True
  then have "enqueued (effects (snd (send cfg d q ev payload st))) = enqueued (effects st1)"
    using passes enabled
    by (simp add: send_def send_try_def send_catch_def send_finally_def getQueueName_def
        Let_def effects_emit enqueued_append)
  with attempt show ?thesis by simp
next
  case False
  define opts where "opts =
    (if truthy (obj_get payload ''scheduleAt'')
     then Some (obj_set ''startAfter'' (new_Date d (obj_get payload ''scheduleAt''))
                  (case getQueueOptions ev payload of None \<Rightarrow> [] | Some so \<Rightarrow> so))
     else getQueueOptions ev payload)"
  define req0 where "req0 =
    \<lparr> req_name = queueName ev,
      req_data = obj_set ''$version'' (JStr (version ev))
                   (spread [(''region'', JStr (region cfg))] payload),
      req_options = opts \<rparr>"
  define st2 where "st2 = emit (Enqueue req0) (emit TimerStart st1)"
  have unfolded: "send cfg d q ev payload st =
      send_finally ev
        (case queue_send q req0 of
           Inl e \<Rightarrow> send_catch cfg ev payload st2
         | Inr res \<Rightarrow> (Inr res, emit (CounterInc (queueName ev)) st2))"
    using passes enabled False
    by (simp add: send_def send_try_def getQueueName_def Let_def opts_def req0_def st2_def
        split: sum.splits)
  have "enqueued (effects (snd (send cfg d q ev payload st))) = enqueued (effects st1) @ [req0]"
    using False
    by (simp add: unfolded send_catch_def send_finally_def getQueueName_def Let_def st2_def
        effects_emit enqueued_append split: sum.splits)
  with attempt have "req = req0" by simp
  with throws have "queue_send q req0 = Inl e" by simp
  then have "send cfg d q ev payload st = send_finally ev (send_catch cfg ev payload st2)"
    by (simp add: unfolded)
  then show ?thesis
    using False \<open>req = req0\<close>
    by (simp add: send_catch_def send_finally_def getQueueName_def Let_def st2_def req0_def
        effects_emit handled_append)
qed

theorem send_enqueue_failure_runs_handler_witness:
  "shouldSend example_config example_deps Webhook (example_payload ''t2'') example_world
     = (Inr True, snd (shouldSend example_config example_deps Webhook (example_payload ''t2'') example_world))
   \<and> pgQueueEnable example_config
   \<and> enqueued (effects (snd (send example_config example_deps failing_queue Webhook
                                (example_payload ''t2'') example_world)))
       = enqueued (effects (snd (shouldSend example_config example_deps Webhook
                                   (example_payload ''t2'') example_world)))
         @ [\<lparr> req_name = ''webhooks'',
               req_data = [(''region'', JStr ''us-east-1''),
                           (''tenant'', JObj [(''ref'', JStr ''t2''), (''host'', JStr ''example.test'')]),
                           (''event'', JStr ''ObjectCreated:Put''),
                           (''$version'', JStr ''v1'')],
               req_options = None \<rparr>]
   \<and> queue_send failing_queue
        \<lparr> req_name = ''webhooks'',
          req_data = [(''region'', JStr ''us-east-1''),
                      (''tenant'', JObj [(''ref'', JStr ''t2''), (''host'', JStr ''example.test'')]),
                      (''event'', JStr ''ObjectCreated:Put''),
                      (''$version'', JStr ''v1'')],
          req_options = None \<rparr> = Inl (Error ''connection refused'')
   \<and> (\<exists>j. handled (effects (snd (send example_config example_deps failing_queue Webhook
                                     (example_payload ''t2'') example_world)))
            = handled (effects (snd (shouldSend example_config example_deps Webhook
                                       (example_payload ''t2'') example_world))) @ [j]
          \<and> job_id j = ''__sync''
          \<and> job_data j = [(''region'', JStr ''us-east-1''),
                           (''tenant'', JObj [(''ref'', JStr ''t2''), (''host'', JStr ''example.test'')]),
                           (''event'', JStr ''ObjectCreated:Put''),
                           (''$version'', JStr ''v1'')]
          \<and> fst (send example_config example_deps failing_queue Webhook
                    (example_payload ''t2'') example_world) = Inr (JStr ''handled by __sync''))"
proof -
  let ?st1 = "snd (shouldSend example_config example_deps Webhook (example_payload ''t2'') example_world)"
  let ?req = "\<lparr> req_name = ''webhooks'',
          req_data = [(''region'', JStr ''us-east-1''),
                      (''tenant'', JObj [(''ref'', JStr ''t2''), (''host'', JStr ''example.test'')]),
                      (''event'', JStr ''ObjectCreated:Put''),
                      (''$version'', JStr ''v1'')],
          req_options = None \<rparr>"
  have passes: "shouldSend example_config example_deps Webhook (example_payload ''t2'') example_world
                = (Inr True, ?st1)"
    by (simp add: send_defs example_defs)
  have enabled: "pgQueueEnable example_config"
    by (simp add: example_defs)
  have attempt: "enqueued (effects (snd (send example_config example_deps failing_queue Webhook
                    (example_payload ''t2'') example_world)))
                 = enqueued (effects ?st1) @ [?req]"
    by (simp add: send_defs example_defs)
  have throws: "queue_send failing_queue ?req = Inl (Error ''connection refused'')"
    by (simp add: example_defs)
  from send_enqueue_failure_runs_handler [OF passes enabled attempt throws]
  obtain j where j: "handled (effects (snd (send example_config example_deps failing_queue Webhook
                      (example_payload ''t2'') example_world))) = handled (effects ?st1) @ [j]"
      "job_id j = ''__sync''" "job_data j = req_data ?req"
      "fst (send example_config example_deps failing_queue Webhook (example_payload ''t2'') example_world)
         = handle Webhook j"
    by blast
  have "handle Webhook j = Inr (JStr ''handled by __sync'')"
    using j(2) by (simp add: Webhook_def)
  with j have "\<exists>j. handled (effects (snd (send example_config example_deps failing_queue Webhook
                      (example_payload ''t2'') example_world))) = handled (effects ?st1) @ [j]
      \<and> job_id j = ''__sync'' \<and> job_data j = req_data ?req
      \<and> fst (send example_config example_deps failing_queue Webhook (example_payload ''t2'') example_world)
         = Inr (JStr ''handled by __sync'')"
    by auto
  then show ?thesis
    using passes enabled attempt throws by simp
qed

subsection \<open>Suppressed events\<close>

text \<open>
  Claim C2. In multi-tenant mode, when the configuration of the payload's tenant lists
  the name of the event type in \<open>disableEvents\<close>, \<open>send\<close> returns \<open>undefined\<close> without
  an error. The state it leaves is the state after the tenant lookup of the suppression
  check: nothing was handed to the queue, no handler ran, and the only effect that can
  have been added is the store query of that lookup.
\<close>

theorem suppressed_event_is_not_sent:
  assumes multi: "isMultitenant cfg"
      and ref: "tenant_ref payload = Inr ref"
      and tenant: "getTenantConfig d ref st = (Inr tenant, st1)"
      and list: "disableEvents tenant = Some evs"
      and disabled: "eventName ev \<in> set evs"
  shows "send cfg d q ev payload st = (Inr JUndefined, st1)
       \<and> enqueued (effects st1) = enqueued (effects st)
       \<and> inserted (effects st1) = inserted (effects st)
       \<and> handled (effects st1) = handled (effects st)
       \<and> (effects st1 = effects st \<or> effects st1 = effects st @ [TenantQuery ref])"
proof -
  have "shouldSend cfg d ev payload st = (Inr False, st1)"
    using assms by (simp add: shouldSend_def)
  then have result: "send cfg d q ev payload st = (Inr JUndefined, st1)"
    by (simp add: send_def)
  have trace: "effects st1 = effects st \<or> effects st1 = effects st @ [TenantQuery ref]"
    using getTenantConfig_effects [of d ref st] tenant by simp
  then have "enqueued (effects st1) = enqueued (effects st)"
    and "inserted (effects st1) = inserted (effects st)"
    and "handled (effects st1) = handled (effects st)"
    by (auto simp: enqueued_append inserted_append handled_append)
  with result trace show ?thesis by simp
qed

theorem suppressed_event_is_not_sent_witness:
  "isMultitenant example_config
   \<and> tenant_ref (example_payload ''t1'') = Inr ''t1''
   \<and> fst (getTenantConfig example_deps ''t1'' example_world)
       = Inr (build_config example_deps (example_row (Some [''Webhook''])) ''service-key'' ''jwt-secret''
                \<lparr> role = ''service_role'' \<rparr>)
   \<and> eventName Webhook \<in> set [''Webhook'']
   \<and> send example_config example_deps working_queue Webhook (example_payload ''t1'') example_world
       = (Inr JUndefined, snd (getTenantConfig example_deps ''t1'' example_world))
   \<and> enqueued (effects (snd (send example_config example_deps working_queue Webhook
                                (example_payload ''t1'') example_world))) = []
   \<and> handled (effects (snd (send example_config example_deps working_queue Webhook
                               (example_payload ''t1'') example_world))) = []"
proof -
  let ?tenant = "build_config example_deps (example_row (Some [''Webhook''])) ''service-key'' ''jwt-secret''
                   \<lparr> role = ''service_role'' \<rparr>"
  let ?st1 = "snd (getTenantConfig example_deps ''t1'' example_world)"
  have multi: "isMultitenant example_config"
    by (simp add: example_defs)
  have ref: "tenant_ref (example_payload ''t1'') = Inr ''t1''"
    by (simp add: tenant_ref_def obj_get_def example_defs)
  have found: "fst (getTenantConfig example_deps ''t1'' example_world) = Inr ?tenant"
    by (simp add: send_defs example_defs)
  then have tenant: "getTenantConfig example_deps ''t1'' example_world = (Inr ?tenant, ?st1)"
    by (simp add: prod_eq_iff)
  have list: "disableEvents ?tenant = Some [''Webhook'']"
    by (simp add: build_config_def example_defs)
  have disabled: "eventName Webhook \<in> set [''Webhook'']"
    by (simp add: example_defs)
  have before: "enqueued (effects example_world) = []" "handled (effects example_world) = []"
    by (simp_all add: example_defs)
  from suppressed_event_is_not_sent [OF multi ref tenant list disabled, of working_queue]
  show ?thesis
    using multi ref found disabled before by simp
qed

subsection \<open>Objects\<close>

lemma obj_get_obj_set: "obj_get (obj_set k v ob) k' = (if k' = k then v else obj_get ob k')"
  by (simp add: obj_get_def map_of_obj_set)

lemma map_of_obj_delete: "map_of (obj_delete k ob) k' = (if k' = k then None else map_of ob k')"
  by (induction ob) (auto simp: obj_delete_def)

lemma obj_get_obj_delete: "obj_get (obj_delete k ob) k' = (if k' = k then JUndefined else obj_get ob k')"
  by (simp add: obj_get_def map_of_obj_delete)

lemma map_of_foldl_obj_set:
  "map_of (foldl (\<lambda>acc k. obj_set k (f k) acc) target ks) k'
     = (if k' \<in> set ks then Some (f k') else map_of target k')"
  by (induction ks arbitrary: target) (auto simp: map_of_obj_set)

lemma map_of_spread:
  "map_of (spread target source) k
     = (case map_of source k of Some v \<Rightarrow> Some v | None \<Rightarrow> map_of target k)"
proof (cases "map_of source k")
  case None
  then have "k \<notin> set (map fst source)" by (simp add: map_of_eq_None_iff)
  with None show ?thesis by (simp add: spread_def map_of_foldl_obj_set)
next
  case (Some v)
  then have "k \<in> set (map fst source)" by (metis map_of_eq_None_iff option.distinct(1) set_map)
  with Some show ?thesis by (simp add: spread_def map_of_foldl_obj_set obj_get_def)
qed

lemma obj_get_spread:
  "obj_get (spread target source) k
     = (case map_of source k of Some v \<Rightarrow> v | None \<Rightarrow> obj_get target k)"
  by (simp add: obj_get_def map_of_spread split: option.splits)

lemma map_of_json_props_None: "map_of ob k = None \<Longrightarrow> map_of (json_props ob) k = None"
  by (induction ob) (auto split: if_splits)

lemma map_of_json_props_Some:
  "map_of ob k = Some v \<Longrightarrow> v \<noteq> JUndefined \<Longrightarrow> map_of (json_props ob) k = Some (json v)"
  by (induction ob) (auto split: if_splits)

subsection \<open>Creating S3 credentials\<close>

text \<open>The count that \<open>createS3Credentials\<close> compares with 50 does not depend on the
  store: an array has no property \<open>count\<close>, so the count read is always 0.\<close>

lemma countS3Credentials_is_zero: "countS3Credentials d tenantId st = Some 0"
  by (simp add: countS3Credentials_def count_query_def optional_get_def or_else_def Number_def)

lemma createS3Credentials_row:
  "\<exists>row. createS3Credentials cfg d r32 r64 rid tenantId input st
           = (Inr \<lparr> created_id = rid, created_access_key = access_key row,
                     created_secret_key = take 64 (toString_hex r64) \<rparr>,
              st\<lparr>db_s3_credentials := db_s3_credentials st @ [row]\<rparr>)
         \<and> tenant_id row = tenantId
         \<and> row_claims row = JSON_stringify (rebuilt_claims cfg tenantId (stripped_claims (claims input)))"
  by (intro exI [of _ "\<lparr> row_id = rid, tenant_id = tenantId, row_description = description input,
                         access_key = take 32 (toString_hex r32),
                         secret_key = encrypt d (take 64 (toString_hex r64)),
                         row_claims = JSON_stringify
                           (rebuilt_claims cfg tenantId (stripped_claims (claims input))) \<rparr>"])
     (simp add: createS3Credentials_def countS3Credentials_is_zero Let_def)

lemma stored_claims_lookup:
  "map_of (rebuilt_claims cfg tenantId cl) ''issuer'' = Some (JStr (''supabase.storage.'' @ tenantId))"
  by (simp add: rebuilt_claims_def map_of_obj_set)

lemma stripped_claims_lookup:
  "stripped_claims cl = Some c \<Longrightarrow> k \<in> {''iss'', ''issuer'', ''exp'', ''iat''} \<Longrightarrow> map_of c k = None"
  by (auto simp: stripped_claims_def map_of_obj_delete split: option.splits)

lemma rebuilt_claims_other:
  "k \<notin> {''sub'', ''issuer'', ''role''} \<Longrightarrow>
   map_of (rebuilt_claims cfg tenantId cl) k = (case cl of None \<Rightarrow> None | Some c \<Rightarrow> map_of c k)"
  by (auto simp: rebuilt_claims_def map_of_obj_set map_of_spread split: option.splits)

text \<open>
  Claim C6. Every call of \<open>createS3Credentials\<close> stores one row. The claims of that row
  have no \<open>iss\<close>, no \<open>exp\<close> and no \<open>iat\<close>, whatever the caller supplied, and their
  \<open>issuer\<close> is the string \<open>supabase.storage.\<close> followed by the tenant identifier.
\<close>

theorem persisted_claims_are_server_assigned:
  "\<exists>row. db_s3_credentials (snd (createS3Credentials cfg d r32 r64 rid tenantId input st))
           = db_s3_credentials st @ [row]
       \<and> map_of (row_claims row) ''iss'' = None
       \<and> map_of (row_claims row) ''exp'' = None
       \<and> map_of (row_claims row) ''iat'' = None
       \<and> map_of (row_claims row) ''issuer'' = Some (JStr (''supabase.storage.'' @ tenantId))"
proof -
  let ?cl = "stripped_claims (claims input)"
  let ?stored = "rebuilt_claims cfg tenantId ?cl"
  have absent: "map_of ?stored k = None" if "k \<in> {''iss'', ''exp'', ''iat''}" for k
  proof (cases ?cl)
    case None
    with that show ?thesis by (auto simp: rebuilt_claims_other)
  next
    case (Some c)
    with that stripped_claims_lookup [OF Some, of k] show ?thesis
      by (auto simp: rebuilt_claims_other)
  qed
  have "map_of (JSON_stringify ?stored) ''iss'' = None"
    and "map_of (JSON_stringify ?stored) ''exp'' = None"
    and "map_of (JSON_stringify ?stored) ''iat'' = None"
    by (simp_all add: JSON_stringify_def map_of_json_props_None absent)
  moreover have "map_of (JSON_stringify ?stored) ''issuer'' = Some (JStr (''supabase.storage.'' @ tenantId))"
    using map_of_json_props_Some [OF stored_claims_lookup]
    by (simp add: JSON_stringify_def)
  ultimately show ?thesis
    using createS3Credentials_row [of cfg d r32 r64 rid tenantId input st] by auto
qed

lemma rows_of_example_store:
  "length (filter (\<lambda>r. tenant_id r = ''t1'') (db_s3_credentials (example_store n))) = n"
  by (induction n) (simp_all add: example_store_def)

theorem persisted_claims_are_server_assigned_witness:
  "(\<exists>c. claims forged_input = Some c \<and> map_of c ''iss'' = Some (JStr ''attacker'')
         \<and> map_of c ''issuer'' = Some (JStr ''attacker''))
   \<and> (\<exists>row. db_s3_credentials (snd (createS3Credentials example_config example_deps
                  (example_bytes 32) (example_bytes 64) ''cred-new'' ''t1'' forged_input (example_store 0)))
                 = db_s3_credentials (example_store 0) @ [row]
             \<and> map_of (row_claims row) ''iss'' = None
             \<and> map_of (row_claims row) ''exp'' = None
             \<and> map_of (row_claims row) ''iat'' = None
             \<and> map_of (row_claims row) ''issuer'' = Some (JStr ''supabase.storage.t1''))"
proof -
  have supplied: "\<exists>c. claims forged_input = Some c \<and> map_of c ''iss'' = Some (JStr ''attacker'')
         \<and> map_of c ''issuer'' = Some (JStr ''attacker'')"
    by (simp add: forged_input_def)
  from persisted_claims_are_server_assigned [of example_config example_deps
      "example_bytes 32" "example_bytes 64" "''cred-new''" "''t1''" forged_input "example_store 0"]
  show ?thesis using supplied by simp
qed

lemma rebuilt_claims_role:
  "map_of (rebuilt_claims cfg tenantId cl) ''role''
     = Some (nullish_or (case cl of None \<Rightarrow> JUndefined | Some c \<Rightarrow> obj_get c ''role'')
               (JStr (dbServiceRole cfg)))"
  by (simp add: rebuilt_claims_def map_of_obj_set)

lemma stripped_claims_role:
  "(case stripped_claims cl of None \<Rightarrow> JUndefined | Some c \<Rightarrow> obj_get c ''role'')
     = (case cl of None \<Rightarrow> JUndefined | Some c \<Rightarrow> obj_get c ''role'')"
  by (simp add: stripped_claims_def obj_get_obj_delete split: option.splits)

text \<open>
  Claim C10. Every call of \<open>createS3Credentials\<close> stores one row. In its claims the role is
  the configured database service role when the caller gave no claims object, or one
  whose role is absent (\<open>undefined\<close>) or \<open>null\<close>; a role string that the caller
  supplied is stored as it is.
\<close>

theorem persisted_role_defaults_to_service_role:
  "\<exists>row. db_s3_credentials (snd (createS3Credentials cfg d r32 r64 rid tenantId input st))
           = db_s3_credentials st @ [row]
       \<and> (claims input = None \<longrightarrow> obj_get (row_claims row) ''role'' = JStr (dbServiceRole cfg))
       \<and> (\<forall>c. claims input = Some c \<and> (obj_get c ''role'' = JUndefined \<or> obj_get c ''role'' = JNull)
              \<longrightarrow> obj_get (row_claims row) ''role'' = JStr (dbServiceRole cfg))
       \<and> (\<forall>c r. claims input = Some c \<and> obj_get c ''role'' = JStr r
              \<longrightarrow> obj_get (row_claims row) ''role'' = JStr r)"
proof -
  let ?supplied = "case claims input of None \<Rightarrow> JUndefined | Some c \<Rightarrow> obj_get c ''role''"
  let ?role = "nullish_or ?supplied (JStr (dbServiceRole cfg))"
  let ?stored = "rebuilt_claims cfg tenantId (stripped_claims (claims input))"
  have "map_of ?stored ''role'' = Some ?role"
    by (simp add: rebuilt_claims_role stripped_claims_role)
  moreover have "?role \<noteq> JUndefined"
    by (simp add: nullish_or_def)
  ultimately have "map_of (JSON_stringify ?stored) ''role'' = Some (json ?role)"
    by (simp add: JSON_stringify_def map_of_json_props_Some)
  then have stored_role: "obj_get (JSON_stringify ?stored) ''role'' = json ?role"
    by (simp add: obj_get_def)
  have "claims input = None \<longrightarrow> json ?role = JStr (dbServiceRole cfg)"
    by (simp add: nullish_or_def)
  moreover have "\<forall>c. claims input = Some c \<and> (obj_get c ''role'' = JUndefined \<or> obj_get c ''role'' = JNull)
                    \<longrightarrow> json ?role = JStr (dbServiceRole cfg)"
    by (auto simp: nullish_or_def)
  moreover have "\<forall>c r. claims input = Some c \<and> obj_get c ''role'' = JStr r \<longrightarrow> json ?role = JStr r"
    by (auto simp: nullish_or_def)
  ultimately show ?thesis
    using createS3Credentials_row [of cfg d r32 r64 rid tenantId input st] stored_role by auto
qed

theorem persisted_role_defaults_to_service_role_witness:
  "claims plain_input = None
   \<and> (\<exists>row. db_s3_credentials (snd (createS3Credentials example_config example_deps
                  (example_bytes 32) (example_bytes 64) ''cred-new'' ''t1'' plain_input (example_store 0)))
                 = db_s3_credentials (example_store 0) @ [row]
             \<and> obj_get (row_claims row) ''role'' = JStr ''service_role'')
   \<and> (\<exists>c. claims forged_input = Some c \<and> obj_get c ''role'' = JStr ''authenticated'')
   \<and> (\<exists>row. db_s3_credentials (snd (createS3Credentials example_config example_deps
                  (example_bytes 32) (example_bytes 64) ''cred-new'' ''t1'' forged_input (example_store 0)))
                 = db_s3_credentials (example_store 0) @ [row]
             \<and> obj_get (row_claims row) ''role'' = JStr ''authenticated'')"
proof -
  have none: "claims plain_input = None"
    by (simp add: plain_input_def)
  obtain c where some: "claims forged_input = Some c" "obj_get c ''role'' = JStr ''authenticated''"
    by (simp add: forged_input_def obj_get_def)
  have service: "dbServiceRole example_config = ''service_role''"
    by (simp add: example_config_def)
  from persisted_role_defaults_to_service_role [of example_config example_deps
      "example_bytes 32" "example_bytes 64" "''cred-new''" "''t1''" plain_input "example_store 0"]
  have first: "\<exists>row. db_s3_credentials (snd (createS3Credentials example_config example_deps
                  (example_bytes 32) (example_bytes 64) ''cred-new'' ''t1'' plain_input (example_store 0)))
                 = db_s3_credentials (example_store 0) @ [row]
             \<and> obj_get (row_claims row) ''role'' = JStr ''service_role''"
    using none service by auto
  from persisted_role_defaults_to_service_role [of example_config example_deps
      "example_bytes 32" "example_bytes 64" "''cred-new''" "''t1''" forged_input "example_store 0"]
  have second: "\<exists>row. db_s3_credentials (snd (createS3Credentials example_config example_deps
                  (example_bytes 32) (example_bytes 64) ''cred-new'' ''t1'' forged_input (example_store 0)))
                 = db_s3_credentials (example_store 0) @ [row]
             \<and> obj_get (row_claims row) ''role'' = JStr ''authenticated''"
    using some by auto
  from none some first second show ?thesis by blast
qed

text \<open>
  Claim C7, what the code does. \<open>createS3Credentials\<close> never fails with
  \<open>MaximumCredentialsLimit\<close>: the count it compares with 50 is always 0, so every call
  succeeds and leaves the tenant with one credential more, also when the tenant already
  holds 50. The claim, and the check \<open>existingCount >= 50\<close> in the source, say that the
  51st is refused.
\<close>

theorem credentials_limit_never_fires:
  "(\<exists>created. fst (createS3Credentials cfg d r32 r64 rid tenantId input st) = Inr created)
   \<and> fst (createS3Credentials cfg d r32 r64 rid tenantId input st) \<noteq> Inl MaximumCredentialsLimit
   \<and> length (filter (\<lambda>r. tenant_id r = tenantId)
               (db_s3_credentials (snd (createS3Credentials cfg d r32 r64 rid tenantId input st))))
       = length (filter (\<lambda>r. tenant_id r = tenantId) (db_s3_credentials st)) + 1"
  using createS3Credentials_row [of cfg d r32 r64 rid tenantId input st] by auto

theorem credentials_limit_never_fires_witness:
  "length (filter (\<lambda>r. tenant_id r = ''t1'') (db_s3_credentials (example_store 50))) = 50
   \<and> (\<exists>created. fst (createS3Credentials example_config example_deps (example_bytes 32)
                      (example_bytes 64) ''cred-new'' ''t1'' plain_input (example_store 50)) = Inr created)
   \<and> length (filter (\<lambda>r. tenant_id r = ''t1'')
               (db_s3_credentials (snd (createS3Credentials example_config example_deps (example_bytes 32)
                      (example_bytes 64) ''cred-new'' ''t1'' plain_input (example_store 50))))) = 51"
proof -
  have full: "length (filter (\<lambda>r. tenant_id r = ''t1'') (db_s3_credentials (example_store 50))) = 50"
    by (rule rows_of_example_store)
  from credentials_limit_never_fires [of example_config example_deps "example_bytes 32"
      "example_bytes 64" "''cred-new''" "''t1''" plain_input "example_store 50"]
  show ?thesis using full by simp
qed

subsection \<open>Failed tenant lookups\<close>

lemma getTenantConfig_missing:
  assumes "tenantId \<noteq> []" and "tenantConfigCache st tenantId = None" and "db_tenants st tenantId = None"
  shows "getTenantConfig d tenantId st = (Inl (MissingTenantConfig tenantId), emit (TenantQuery tenantId) st)"
  using assms
  by (simp add: getTenantConfig_def mutexByKey_def getTenantConfig_locked_def Let_def emit_def)

text \<open>
  Claim C8 as stated fails in two places. A tenant that is cached is served from the
  cache also when the store has no row for it any more: no \<open>MissingTenantConfig\<close>, no
  query. And after the failure on the empty identifier a further call does not query
  the store: it fails again at the check of the identifier.
\<close>

theorem getTenantConfig_failures_counterexample:
  "db_tenants stale_cache_world ''t2'' = None
   \<and> (\<exists>config. getTenantConfig example_deps ''t2'' stale_cache_world = (Inr config, stale_cache_world))
   \<and> fst (getTenantConfig example_deps [] example_world) = Inl InvalidTenantId
   \<and> effects (snd (getTenantConfig example_deps []
                     (snd (getTenantConfig example_deps [] example_world)))) = []"
  by (simp add: stale_cache_world_def send_defs example_defs)

text \<open>
  Claim C8, as amended. \<open>getTenantConfig\<close> fails with \<open>InvalidTenantId\<close> on the empty
  identifier and leaves the state as it was, so it queries nothing, however often it is
  called. A tenant that is cached is returned from the cache, and the state stays as it
  was. For a tenant that is not cached and has no row in the store it fails with
  \<open>MissingTenantConfig\<close> after one store query, and the cache is unchanged: nothing
  records the failure, so the next call for the same tenant queries the store again.
\<close>

theorem getTenantConfig_failures_are_not_cached:
  "getTenantConfig d [] st = (Inl InvalidTenantId, st)
   \<and> (\<forall>cached. tenantId \<noteq> [] \<and> tenantConfigCache st tenantId = Some cached
         \<longrightarrow> getTenantConfig d tenantId st = (Inr cached, st))
   \<and> (tenantId \<noteq> [] \<and> tenantConfigCache st tenantId = None \<and> db_tenants st tenantId = None
        \<longrightarrow> fst (getTenantConfig d tenantId st) = Inl (MissingTenantConfig tenantId)
          \<and> tenantConfigCache (snd (getTenantConfig d tenantId st)) = tenantConfigCache st
          \<and> tenant_queries (snd (getTenantConfig d tenantId st)) tenantId = tenant_queries st tenantId + 1
          \<and> fst (getTenantConfig d tenantId (snd (getTenantConfig d tenantId st)))
              = Inl (MissingTenantConfig tenantId)
          \<and> tenant_queries (snd (getTenantConfig d tenantId (snd (getTenantConfig d tenantId st)))) tenantId
              = tenant_queries st tenantId + 2)"
proof (intro conjI impI allI)
  show "getTenantConfig d [] st = (Inl InvalidTenantId, st)"
    by (simp add: getTenantConfig_def)
next
  fix cached
  assume "tenantId \<noteq> [] \<and> tenantConfigCache st tenantId = Some cached"
  then show "getTenantConfig d tenantId st = (Inr cached, st)"
    by (simp add: getTenantConfig_def)
next
  assume miss: "tenantId \<noteq> [] \<and> tenantConfigCache st tenantId = None \<and> db_tenants st tenantId = None"
  let ?st1 = "emit (TenantQuery tenantId) st"
  have first: "getTenantConfig d tenantId st = (Inl (MissingTenantConfig tenantId), ?st1)"
    using miss by (simp add: getTenantConfig_missing)
  have "tenantConfigCache ?st1 tenantId = None" and "db_tenants ?st1 tenantId = None"
    using miss by (simp_all add: emit_def)
  with miss have second: "getTenantConfig d tenantId ?st1
      = (Inl (MissingTenantConfig tenantId), emit (TenantQuery tenantId) ?st1)"
    by (simp add: getTenantConfig_missing)
  show "fst (getTenantConfig d tenantId st) = Inl (MissingTenantConfig tenantId)"
    by (simp add: first)
  show "tenantConfigCache (snd (getTenantConfig d tenantId st)) = tenantConfigCache st"
    by (simp add: first emit_def)
  show "tenant_queries (snd (getTenantConfig d tenantId st)) tenantId = tenant_queries st tenantId + 1"
    by (simp add: first tenant_queries_emit)
  show "fst (getTenantConfig d tenantId (snd (getTenantConfig d tenantId st)))
          = Inl (MissingTenantConfig tenantId)"
    by (simp add: first second)
  show "tenant_queries (snd (getTenantConfig d tenantId (snd (getTenantConfig d tenantId st)))) tenantId
          = tenant_queries st tenantId + 2"
    by (simp add: first second tenant_queries_emit)
qed

theorem getTenantConfig_failures_are_not_cached_witness:
  "getTenantConfig example_deps [] example_world = (Inl InvalidTenantId, example_world)
   \<and> ''t2'' \<noteq> []
   \<and> (\<exists>cached. tenantConfigCache stale_cache_world ''t2'' = Some cached
         \<and> getTenantConfig example_deps ''t2'' stale_cache_world = (Inr cached, stale_cache_world))
   \<and> ''ghost'' \<noteq> [] \<and> tenantConfigCache example_world ''ghost'' = None
   \<and> db_tenants example_world ''ghost'' = None
   \<and> fst (getTenantConfig example_deps ''ghost'' example_world) = Inl (MissingTenantConfig ''ghost'')
   \<and> tenantConfigCache (snd (getTenantConfig example_deps ''ghost'' example_world)) ''ghost'' = None
   \<and> tenant_queries (snd (getTenantConfig example_deps ''ghost'' example_world)) ''ghost'' = 1
   \<and> tenant_queries (snd (getTenantConfig example_deps ''ghost''
                            (snd (getTenantConfig example_deps ''ghost'' example_world)))) ''ghost'' = 2"
proof -
  have miss: "''ghost'' \<noteq> [] \<and> tenantConfigCache example_world ''ghost'' = None
              \<and> db_tenants example_world ''ghost'' = None"
    by (simp add: example_world_def)
  have before: "tenant_queries example_world ''ghost'' = 0"
    by (simp add: tenant_queries_def example_world_def)
  obtain cached where hit: "tenantConfigCache stale_cache_world ''t2'' = Some cached"
    by (simp add: stale_cache_world_def send_defs example_defs)
  from getTenantConfig_failures_are_not_cached [of example_deps stale_cache_world "''t2''"] hit
  have served: "\<exists>cached. tenantConfigCache stale_cache_world ''t2'' = Some cached
         \<and> getTenantConfig example_deps ''t2'' stale_cache_world = (Inr cached, stale_cache_world)"
    by simp
  from getTenantConfig_failures_are_not_cached [of example_deps example_world "''ghost''"]
  show ?thesis
    using miss before served by simp
qed

subsection \<open>The slow-retry queue\<close>

lemma obj_get_Nil: "obj_get [] k = JUndefined"
  by (simp add: obj_get_def)

lemma obj_get_Cons: "obj_get ((k, v) # ob) k' = (if k' = k then v else obj_get ob k')"
  by (simp add: obj_get_def)

lemma slowRetry_obj_lookup:
  "map_of (slowRetry_obj policy) k
     = (if k = ''retryLimit'' then Some (JNum (retryLimit policy))
        else if k = ''retryDelay'' then Some (JNum (retryDelay policy)) else None)"
  by (simp add: slowRetry_obj_def)

text \<open>
  Claim C4, what the code does. For an event type with a slow-retry policy and a queue
  name, with the queue enabled, \<open>sendSlowRetryQueue\<close> hands the queue one request under
  the queue name followed by \<open>-slow\<close>. In its options \<open>retryLimit\<close> and \<open>retryDelay\<close> are
  those of the policy; \<open>retryBackoff\<close> is \<open>true\<close> and \<open>startAfter\<close> is the number
  \<open>60 * 60 * 30 = 108000\<close> unless the event's own queue options set them. The queue
  reads a numeric \<open>startAfter\<close> as seconds: 108000 seconds are 30 hours, where the
  comment in the source and the claim say 30 minutes (1800 seconds).
\<close>

theorem slow_retry_request:
  assumes policy: "withSlowRetryQueue ev = Some policy"
      and enabled: "pgQueueEnable cfg"
      and named: "queueName ev \<noteq> []"
  shows "\<exists>req so. enqueued (effects (snd (sendSlowRetryQueue cfg q ev payload st)))
                    = enqueued (effects st) @ [req]
           \<and> req_name req = queueName ev @ ''-slow''
           \<and> req_options req = Some so
           \<and> obj_get so ''retryLimit'' = JNum (retryLimit policy)
           \<and> obj_get so ''retryDelay'' = JNum (retryDelay policy)
           \<and> obj_get so ''retryBackoff''
               = (case map_of (case getQueueOptions ev payload of None \<Rightarrow> [] | Some opts \<Rightarrow> opts)
                         ''retryBackoff'' of
                    None \<Rightarrow> JBool True | Some v \<Rightarrow> v)
           \<and> obj_get so ''startAfter''
               = (case map_of (case getQueueOptions ev payload of None \<Rightarrow> [] | Some opts \<Rightarrow> opts)
                         ''startAfter'' of
                    None \<Rightarrow> JNum 108000 | Some v \<Rightarrow> v)"
proof -
  let ?opts = "case getQueueOptions ev payload of None \<Rightarrow> [] | Some opts \<Rightarrow> opts"
  let ?so = "spread (spread [(''retryBackoff'', JBool True), (''startAfter'', JNum (60 * 60 * 30))] ?opts)
               (slowRetry_obj policy)"
  let ?req = "\<lparr> req_name = queueName ev @ ''-slow'',
                 req_data = obj_set ''$version'' (JStr (version ev))
                              (spread [(''region'', JStr (region cfg))] payload),
                 req_options = Some ?so \<rparr>"
  have "enqueued (effects (snd (sendSlowRetryQueue cfg q ev payload st))) = enqueued (effects st) @ [?req]"
    using assms
    by (simp add: sendSlowRetryQueue_def getSlowRetryQueueName_def Let_def effects_emit enqueued_append
        split: sum.splits)
  moreover have "obj_get ?so ''retryLimit'' = JNum (retryLimit policy)"
    and "obj_get ?so ''retryDelay'' = JNum (retryDelay policy)"
    by (simp_all add: obj_get_spread slowRetry_obj_lookup)
  moreover have "obj_get ?so ''retryBackoff'' = (case map_of ?opts ''retryBackoff'' of None \<Rightarrow> JBool True | Some v \<Rightarrow> v)"
    and "obj_get ?so ''startAfter'' = (case map_of ?opts ''startAfter'' of None \<Rightarrow> JNum 108000 | Some v \<Rightarrow> v)"
    by (simp_all add: obj_get_spread slowRetry_obj_lookup obj_get_Cons obj_get_Nil split: option.splits)
  ultimately show ?thesis
    by (intro exI [of _ ?req] exI [of _ ?so]) simp
qed

theorem slow_retry_request_witness:
  "withSlowRetryQueue Webhook = Some \<lparr> retryLimit = 5, retryDelay = 3600 \<rparr>
   \<and> pgQueueEnable example_config
   \<and> queueName Webhook \<noteq> []
   \<and> getQueueOptions Webhook (example_payload ''t2'') = None
   \<and> (\<exists>req so. enqueued (effects (snd (sendSlowRetryQueue example_config working_queue Webhook
                                         (example_payload ''t2'') example_world))) = [req]
          \<and> req_name req = ''webhooks-slow''
          \<and> req_options req = Some so
          \<and> obj_get so ''retryLimit'' = JNum 5
          \<and> obj_get so ''retryDelay'' = JNum 3600
          \<and> obj_get so ''retryBackoff'' = JBool True
          \<and> obj_get so ''startAfter'' = JNum 108000)
   \<and> (108000 :: int) = 30 * 60 * 60
   \<and> (108000 :: int) \<noteq> 30 * 60"
proof -
  have policy: "withSlowRetryQueue Webhook = Some \<lparr> retryLimit = 5, retryDelay = 3600 \<rparr>"
    and enabled: "pgQueueEnable example_config"
    and named: "queueName Webhook \<noteq> []"
    and plain: "getQueueOptions Webhook (example_payload ''t2'') = None"
    and name: "queueName Webhook = ''webhooks''"
    and before: "enqueued (effects example_world) = []"
    by (simp_all add: example_defs)
  from slow_retry_request [OF policy enabled named, of working_queue "example_payload ''t2''" example_world]
  show ?thesis
    using policy enabled named plain name before by simp
qed

subsection \<open>The envelope handed to the queue\<close>

lemma envelope_lookup:
  "obj_get (obj_set ''$version'' (JStr v) (spread [(''region'', JStr r)] payload)) k
     = (if k = ''$version'' then JStr v
        else case map_of payload k of
               Some x \<Rightarrow> x
             | None \<Rightarrow> if k = ''region'' then JStr r else JUndefined)"
  by (simp add: obj_get_obj_set obj_get_spread obj_get_Cons obj_get_Nil split: option.splits)

lemma send_enqueues:
  assumes passes: "shouldSend cfg d ev payload st = (Inr True, st1)"
      and enabled: "pgQueueEnable cfg"
      and named: "queueName ev \<noteq> []"
  shows "enqueued (effects (snd (send cfg d q ev payload st)))
           = enqueued (effects st1) @
             [\<lparr> req_name = queueName ev,
                req_data = obj_set ''$version'' (JStr (version ev))
                             (spread [(''region'', JStr (region cfg))] payload),
                req_options =
                  (if truthy (obj_get payload ''scheduleAt'')
                   then Some (obj_set ''startAfter'' (new_Date d (obj_get payload ''scheduleAt''))
                                (case getQueueOptions ev payload of None \<Rightarrow> [] | Some so \<Rightarrow> so))
                   else getQueueOptions ev payload) \<rparr>]"
  using assms
  by (simp add: send_def send_try_def send_catch_def send_finally_def getQueueName_def Let_def
      effects_emit enqueued_append split: sum.splits)

lemma batch_job_stamped:
  assumes named: "queueName ev \<noteq> []"
  shows "\<exists>j stamped. batch_job d ev payload = Inr j
           \<and> obj_get j ''name'' = JStr (queueName ev)
           \<and> obj_get j ''data'' = JObj stamped
           \<and> obj_get stamped ''$version''
               = (if truthy (obj_get payload ''$version'') then obj_get payload ''$version''
                  else JStr (version ev))
           \<and> (\<forall>k. k \<noteq> ''$version'' \<longrightarrow> obj_get stamped k = obj_get payload k)"
  using named
  by (auto simp: batch_job_def getQueueName_def Let_def obj_get_obj_set obj_get_spread map_of_obj_set)

text \<open>
  Claim C3, what the code does. The queue is enabled and the event type has a queue
  name. The request that \<open>send\<close> hands to the queue always carries the version tag of the
  event type as \<open>$version\<close>: the tag is written over the payload's fields, so a
  \<open>$version\<close> that the caller supplied is lost. \<open>batchSend\<close> on the same payload keeps
  a supplied \<open>$version\<close> and stamps only a payload without one, as the guards of the
  static \<open>send\<close> and \<open>sendSlowRetryQueue\<close> do; the data of its job is the payload
  otherwise unchanged, so it carries no region tag either.
\<close>

theorem send_overwrites_supplied_version:
  assumes passes: "shouldSend cfg d ev payload st = (Inr True, st1)"
      and enabled: "pgQueueEnable cfg"
      and named: "queueName ev \<noteq> []"
  shows "(\<exists>req. enqueued (effects (snd (send cfg d q ev payload st))) = enqueued (effects st1) @ [req]
            \<and> obj_get (req_data req) ''$version'' = JStr (version ev))
       \<and> (\<exists>j stamped. inserted (effects (snd (batchSend cfg d q ev [(ev, payload)] st)))
                          = inserted (effects st) @ [[j]]
            \<and> obj_get j ''data'' = JObj stamped
            \<and> obj_get stamped ''$version''
                = (if truthy (obj_get payload ''$version'') then obj_get payload ''$version''
                   else JStr (version ev))
            \<and> (\<forall>k. k \<noteq> ''$version'' \<longrightarrow> obj_get stamped k = obj_get payload k))"
proof
  let ?req = "\<lparr> req_name = queueName ev,
                 req_data = obj_set ''$version'' (JStr (version ev))
                              (spread [(''region'', JStr (region cfg))] payload),
                 req_options =
                   (if truthy (obj_get payload ''scheduleAt'')
                    then Some (obj_set ''startAfter'' (new_Date d (obj_get payload ''scheduleAt''))
                                 (case getQueueOptions ev payload of None \<Rightarrow> [] | Some so \<Rightarrow> so))
                    else getQueueOptions ev payload) \<rparr>"
  have "enqueued (effects (snd (send cfg d q ev payload st))) = enqueued (effects st1) @ [?req]"
    by (rule send_enqueues [OF passes enabled named])
  moreover have "obj_get (req_data ?req) ''$version'' = JStr (version ev)"
    by (simp add: envelope_lookup)
  ultimately show "\<exists>req. enqueued (effects (snd (send cfg d q ev payload st))) = enqueued (effects st1) @ [req]
            \<and> obj_get (req_data req) ''$version'' = JStr (version ev)"
    by blast
next
  from batch_job_stamped [OF named, of d payload]
  obtain j stamped where job: "batch_job d ev payload = Inr j"
    and data: "obj_get j ''data'' = JObj stamped"
    and stamp: "obj_get stamped ''$version''
                = (if truthy (obj_get payload ''$version'') then obj_get payload ''$version''
                   else JStr (version ev))"
    and rest: "\<forall>k. k \<noteq> ''$version'' \<longrightarrow> obj_get stamped k = obj_get payload k"
    by blast
  from job enabled
  have "inserted (effects (snd (batchSend cfg d q ev [(ev, payload)] st))) = inserted (effects st) @ [[j]]"
    by (simp add: batchSend_def effects_emit inserted_append)
  with data stamp rest
  show "\<exists>j stamped. inserted (effects (snd (batchSend cfg d q ev [(ev, payload)] st)))
                          = inserted (effects st) @ [[j]]
            \<and> obj_get j ''data'' = JObj stamped
            \<and> obj_get stamped ''$version''
                = (if truthy (obj_get payload ''$version'') then obj_get payload ''$version''
                   else JStr (version ev))
            \<and> (\<forall>k. k \<noteq> ''$version'' \<longrightarrow> obj_get stamped k = obj_get payload k)"
    by blast
qed

theorem send_overwrites_supplied_version_witness:
  "shouldSend example_config example_deps Webhook scheduled_payload example_world
     = (Inr True, snd (shouldSend example_config example_deps Webhook scheduled_payload example_world))
   \<and> pgQueueEnable example_config
   \<and> queueName Webhook \<noteq> []
   \<and> obj_get scheduled_payload ''$version'' = JStr ''v0''
   \<and> version Webhook = ''v1''
   \<and> (\<exists>req. enqueued (effects (snd (send example_config example_deps working_queue Webhook
                                       scheduled_payload example_world)))
              = enqueued (effects (snd (shouldSend example_config example_deps Webhook
                                          scheduled_payload example_world))) @ [req]
          \<and> obj_get (req_data req) ''$version'' = JStr ''v1'')
   \<and> (\<exists>j stamped. inserted (effects (snd (batchSend example_config example_deps working_queue Webhook
                                             [(Webhook, scheduled_payload)] example_world)))
              = [[j]]
          \<and> obj_get j ''data'' = JObj stamped
          \<and> obj_get stamped ''$version'' = JStr ''v0''
          \<and> obj_get stamped ''region'' = JUndefined)
   \<and> enqueued (effects (snd (send example_config example_deps working_queue Webhook
                                scheduled_payload example_world)))
       = [\<lparr> req_name = ''webhooks'',
            req_data = [(''region'', JStr ''us-east-1''),
                        (''$version'', JStr ''v1''),
                        (''tenant'', JObj [(''ref'', JStr ''t2''), (''host'', JStr ''example.test'')]),
                        (''scheduleAt'', JDate 1767225600000)],
            req_options = Some [(''startAfter'', JDate 1767225600000)] \<rparr>]"
proof -
  let ?st1 = "snd (shouldSend example_config example_deps Webhook scheduled_payload example_world)"
  have enabled: "pgQueueEnable example_config" and named: "queueName Webhook \<noteq> []"
    by (simp_all add: example_defs)
  have passes: "shouldSend example_config example_deps Webhook scheduled_payload example_world
                  = (Inr True, ?st1)"
    by (simp add: send_defs example_defs scheduled_payload_def)
  have facts: "version Webhook = ''v1''"
      "obj_get scheduled_payload ''$version'' = JStr ''v0''"
      "obj_get scheduled_payload ''region'' = JUndefined"
      "inserted (effects example_world) = []"
    by (simp_all add: example_defs scheduled_payload_def obj_get_def)
  have traced: "enqueued (effects (snd (send example_config example_deps working_queue Webhook
                                scheduled_payload example_world)))
       = [\<lparr> req_name = ''webhooks'',
            req_data = [(''region'', JStr ''us-east-1''),
                        (''$version'', JStr ''v1''),
                        (''tenant'', JObj [(''ref'', JStr ''t2''), (''host'', JStr ''example.test'')]),
                        (''scheduleAt'', JDate 1767225600000)],
            req_options = Some [(''startAfter'', JDate 1767225600000)] \<rparr>]"
    by (simp add: send_defs new_Date_def example_defs scheduled_payload_def)
  from send_overwrites_supplied_version [OF passes enabled named, of working_queue]
  have "(\<exists>req. enqueued (effects (snd (send example_config example_deps working_queue Webhook
                                       scheduled_payload example_world)))
              = enqueued (effects ?st1) @ [req]
          \<and> obj_get (req_data req) ''$version'' = JStr ''v1'')
      \<and> (\<exists>j stamped. inserted (effects (snd (batchSend example_config example_deps working_queue Webhook
                                             [(Webhook, scheduled_payload)] example_world)))
              = [[j]]
          \<and> obj_get j ''data'' = JObj stamped
          \<and> obj_get stamped ''$version'' = JStr ''v0''
          \<and> obj_get stamped ''region'' = JUndefined)"
    using facts by auto
  with passes enabled named facts traced show ?thesis by blast
qed

subsection \<open>Deleting an S3 credential\<close>

lemmas credential_defs =
  getS3CredentialsByAccessKey_def getS3CredentialsByAccessKey_locked_def deleteS3Credential_def
  cached_credential_world_def example_store_def mutexByKey_def emit_def Let_def

text \<open>
  Claim C5 as stated fails. The credential of tenant \<open>t1\<close> is in the store and, after a
  lookup, in the credential cache. \<open>deleteS3Credential\<close> deletes the row and returns its
  id; the cache entry is still there, no effect was recorded, and the next lookup by
  access key still returns the deleted credential from the cache.
\<close>

theorem deleteS3Credential_keeps_cache_counterexample:
  "fst (deleteS3Credential ''t1'' ''cred-'' cached_credential_world) = [''cred-'']
   \<and> db_s3_credentials (snd (deleteS3Credential ''t1'' ''cred-'' cached_credential_world)) = []
   \<and> tenantS3CredentialsCache (snd (deleteS3Credential ''t1'' ''cred-'' cached_credential_world)) ''t1:AK''
       = Some \<lparr> accessKey = ''AK'', secretKey = ''secret'',
                 cred_claims = [(''role'', JStr ''service_role''),
                                (''issuer'', JStr ''supabase.storage.t1'')] \<rparr>
   \<and> effects (snd (deleteS3Credential ''t1'' ''cred-'' cached_credential_world))
       = effects cached_credential_world
   \<and> getS3CredentialsByAccessKey example_deps ''t1'' ''AK''
         (snd (deleteS3Credential ''t1'' ''cred-'' cached_credential_world))
       = (Inr \<lparr> accessKey = ''AK'', secretKey = ''secret'',
                 cred_claims = [(''role'', JStr ''service_role''),
                                (''issuer'', JStr ''supabase.storage.t1'')] \<rparr>,
          snd (deleteS3Credential ''t1'' ''cred-'' cached_credential_world))"
  by (simp add: credential_defs example_defs)

text \<open>
  Claim C5, as amended. \<open>deleteS3Credential\<close> returns the ids of the rows of the tenant
  with the given id and removes exactly these rows from the store. It leaves both
  caches and the recorded effects as they were: it neither invalidates nor publishes.
  An entry leaves the credential cache when a message with its cache key arrives on the
  credentials update channel, by the handler that \<open>listenForTenantUpdate\<close> subscribes.
\<close>

theorem deleteS3Credential_only_deletes_rows:
  "fst (deleteS3Credential tenantId credentialId st)
     = map row_id (filter (\<lambda>r. tenant_id r = tenantId \<and> row_id r = credentialId) (db_s3_credentials st))
   \<and> set (db_s3_credentials (snd (deleteS3Credential tenantId credentialId st)))
       = set (db_s3_credentials st) - {r. tenant_id r = tenantId \<and> row_id r = credentialId}
   \<and> tenantS3CredentialsCache (snd (deleteS3Credential tenantId credentialId st))
       = tenantS3CredentialsCache st
   \<and> tenantConfigCache (snd (deleteS3Credential tenantId credentialId st)) = tenantConfigCache st
   \<and> effects (snd (deleteS3Credential tenantId credentialId st)) = effects st
   \<and> tenantS3CredentialsCache
         (listenForTenantUpdate_message TENANTS_S3_CREDENTIALS_UPDATE_CHANNEL cacheKey
            (snd (deleteS3Credential tenantId credentialId st))) cacheKey = None"
  by (auto simp: deleteS3Credential_def listenForTenantUpdate_message_def Let_def)

subsection \<open>Concurrent callers\<close>

lemma tenant_queries_cache_update:
  "tenant_queries (st\<lparr>tenantConfigCache := m\<rparr>) t = tenant_queries st t"
  by (simp add: tenant_queries_def)

lemma emit_fields:
  "db_tenants (emit e st) = db_tenants st"
  "tenantConfigCache (emit e st) = tenantConfigCache st"
  by (simp_all add: emit_def)

lemma single_flight_inv_holder:
  assumes inv: "single_flight_inv tenantOf t q0 tenant config c"
      and mine: "tenantOf i = t"
      and awaiting: "place_of c i = AwaitingStore \<or> place_of c i = AwaitingVerify r"
  shows "owner c t = Some i \<and> tenantConfigCache (shared c) t = None
         \<and> tenant_queries (shared c) t = q0 + 1 \<and> db_tenants (shared c) t = Some tenant
         \<and> (place_of c i = AwaitingVerify r \<longrightarrow> r = tenant)"
proof -
  from inv mine awaiting have "owner c t = Some i"
    unfolding single_flight_inv_def by blast
  with inv show ?thesis
    unfolding single_flight_inv_def by auto
qed

lemma single_flight_inv_other:
  assumes inv: "single_flight_inv tenantOf t q0 tenant config c"
      and other: "tenantOf i \<noteq> t"
      and shared: "db_tenants (shared c') t = db_tenants (shared c) t"
                  "tenantConfigCache (shared c') t = tenantConfigCache (shared c) t"
                  "tenant_queries (shared c') t = tenant_queries (shared c) t"
      and owner: "owner c' t = owner c t"
      and places: "\<forall>j. j \<noteq> i \<longrightarrow> place_of c' j = place_of c j"
  shows "single_flight_inv tenantOf t q0 tenant config c'"
proof -
  have same: "place_of c' j = place_of c j" if "tenantOf j = t" for j
    using that other places by auto
  show ?thesis
    using inv unfolding single_flight_inv_def shared owner
    by (auto simp: same split: option.splits)
qed

lemma caller_step_frame:
  assumes step: "caller_step d tenantOf i c = Some c'"
  shows "db_tenants (shared c') = db_tenants (shared c)
       \<and> (\<forall>k. k \<noteq> tenantOf i \<longrightarrow> tenantConfigCache (shared c') k = tenantConfigCache (shared c) k)
       \<and> (\<forall>k. k \<noteq> tenantOf i \<longrightarrow> tenant_queries (shared c') k = tenant_queries (shared c) k)
       \<and> (\<forall>k. k \<noteq> tenantOf i \<longrightarrow> owner c' k = owner c k)
       \<and> (\<forall>j. j \<noteq> i \<longrightarrow> place_of c' j = place_of c j)"
proof (cases "place_of c i")
  case AtEntry
  with step show ?thesis
    by (auto simp: caller_step_def Let_def split: option.splits if_splits)
next
  case AwaitingLock
  with step show ?thesis
    by (auto simp: caller_step_def Let_def tenant_queries_emit emit_fields split: option.splits)
next
  case AwaitingStore
  with step show ?thesis
    by (auto simp: caller_step_def Let_def split: option.splits)
next
  case (AwaitingVerify r)
  with step show ?thesis
    by (auto simp: caller_step_def Let_def tenant_queries_cache_update split: sum.splits)
next
  case (Returned r)
  with step show ?thesis by (simp add: caller_step_def)
qed


lemma single_flight_inv_step:
  assumes inv: "single_flight_inv tenantOf t q0 tenant config c"
      and verified: "verifyJWT d (decrypt d (service_key tenant)) (decrypt d (jwt_secret tenant)) = Inr payload"
      and config: "config = build_config d tenant (decrypt d (service_key tenant))
                              (decrypt d (jwt_secret tenant)) payload"
      and step: "caller_step d tenantOf i c = Some c'"
  shows "single_flight_inv tenantOf t q0 tenant config c'"
proof (cases "tenantOf i = t")
  case False
  from caller_step_frame [OF step] False show ?thesis
    by (intro single_flight_inv_other [OF inv False]) auto
next
  case True
  show ?thesis
  proof (cases "place_of c i")
    case AtEntry
    have not_owner: "owner c t \<noteq> Some i"
      using inv AtEntry unfolding single_flight_inv_def by (auto split: option.splits)
    from step AtEntry True obtain p where
      c': "c' = c\<lparr>place_of := (place_of c)(i := p)\<rparr>"
      and p: "p = AwaitingLock \<or> p = Returned (Inl InvalidTenantId) \<and> t = []
              \<or> (\<exists>cached. p = Returned (Inr cached) \<and> tenantConfigCache (shared c) t = Some cached)"
      by (auto simp: caller_step_def Let_def split: option.splits if_splits)
    show ?thesis
      using inv not_owner p unfolding single_flight_inv_def c'
      by (auto split: option.splits)
  next
    case AwaitingLock
    from step AwaitingLock True have free: "owner c t = None"
      by (auto simp: caller_step_def Let_def split: option.splits)
    show ?thesis
    proof (cases "tenantConfigCache (shared c) t")
      case None
      with step AwaitingLock True free have
        c': "c' = c\<lparr>shared := emit (TenantQuery t) (shared c), owner := (owner c)(t \<mapsto> i),
                      place_of := (place_of c)(i := AwaitingStore)\<rparr>"
        by (auto simp: caller_step_def Let_def)
      show ?thesis
        using inv free None True unfolding single_flight_inv_def c'
        by (auto simp: tenant_queries_emit emit_fields)
    next
      case (Some cached)
      with step AwaitingLock True free have
        c': "c' = c\<lparr>place_of := (place_of c)(i := Returned (Inr cached))\<rparr>"
        by (auto simp: caller_step_def Let_def)
      show ?thesis
        using inv free Some unfolding single_flight_inv_def c'
        by auto
    qed
  next
    case AwaitingStore
    from single_flight_inv_holder [OF inv True, of tenant] AwaitingStore
    have held: "owner c t = Some i" "tenantConfigCache (shared c) t = None"
      "tenant_queries (shared c) t = q0 + 1" "db_tenants (shared c) t = Some tenant"
      by auto
    with step AwaitingStore True have
      c': "c' = c\<lparr>place_of := (place_of c)(i := AwaitingVerify tenant)\<rparr>"
      by (auto simp: caller_step_def Let_def)
    show ?thesis
      using inv held unfolding single_flight_inv_def c'
      by auto
  next
    case (AwaitingVerify r)
    from single_flight_inv_holder [OF inv True, of r] AwaitingVerify
    have held: "owner c t = Some i" "tenantConfigCache (shared c) t = None"
      "tenant_queries (shared c) t = q0 + 1" "db_tenants (shared c) t = Some tenant" "r = tenant"
      by auto
    with step AwaitingVerify True verified config have
      c': "c' = c\<lparr>shared := (shared c)\<lparr>tenantConfigCache := (tenantConfigCache (shared c))(t \<mapsto> config)\<rparr>,
                    owner := (owner c)(t := None),
                    place_of := (place_of c)(i := Returned (Inr config))\<rparr>"
      by (auto simp: caller_step_def Let_def)
    show ?thesis
      using inv held unfolding single_flight_inv_def c'
      by (auto simp: tenant_queries_cache_update)
  next
    case (Returned r)
    with step show ?thesis by (simp add: caller_step_def)
  qed
qed

lemma single_flight_inv_run:
  assumes verified: "verifyJWT d (decrypt d (service_key tenant)) (decrypt d (jwt_secret tenant)) = Inr payload"
      and config: "config = build_config d tenant (decrypt d (service_key tenant))
                              (decrypt d (jwt_secret tenant)) payload"
  shows "single_flight_inv tenantOf t q0 tenant config c \<Longrightarrow> run d tenantOf schedule c = Some c'
         \<Longrightarrow> single_flight_inv tenantOf t q0 tenant config c'"
proof (induction schedule arbitrary: c)
  case Nil
  then show ?case by simp
next
  case (Cons i schedule)
  from Cons.prems(2) obtain c1 where
    first: "caller_step d tenantOf i c = Some c1" and rest: "run d tenantOf schedule c1 = Some c'"
    by (auto split: option.splits)
  from single_flight_inv_step [OF Cons.prems(1) verified config first]
  have "single_flight_inv tenantOf t q0 tenant config c1" .
  with Cons.IH rest show ?case by blast
qed


text \<open>A caller that runs alone, with the lock of its tenant free, does what
  \<open>getTenantConfig\<close> does: the pieces are those of the function.\<close>

lemma solo_run_is_getTenantConfig:
  assumes entry: "place_of c i = AtEntry" and free: "owner c (tenantOf i) = None"
  shows "\<exists>n. run d tenantOf (replicate n i) c
               = Some (c\<lparr>shared := snd (getTenantConfig d (tenantOf i) (shared c)),
                        place_of := (place_of c)(i := Returned (fst (getTenantConfig d (tenantOf i) (shared c))))\<rparr>)"
proof (cases "tenantOf i = []")
  case True
  with entry have "run d tenantOf (replicate 1 i) c
      = Some (c\<lparr>shared := snd (getTenantConfig d (tenantOf i) (shared c)),
               place_of := (place_of c)(i := Returned (fst (getTenantConfig d (tenantOf i) (shared c))))\<rparr>)"
    by (simp add: caller_step_def getTenantConfig_def)
  then show ?thesis by blast
next
  case False
  show ?thesis
  proof (cases "tenantConfigCache (shared c) (tenantOf i)")
    case (Some cached)
    with entry False have "run d tenantOf (replicate 1 i) c
        = Some (c\<lparr>shared := snd (getTenantConfig d (tenantOf i) (shared c)),
                 place_of := (place_of c)(i := Returned (fst (getTenantConfig d (tenantOf i) (shared c))))\<rparr>)"
      by (simp add: caller_step_def getTenantConfig_def)
    then show ?thesis by blast
  next
    case None
    note miss = None
    from free have released: "(owner c)(tenantOf i := None) = owner c"
      by (simp add: fun_upd_idem_iff)
    show ?thesis
    proof (cases "db_tenants (shared c) (tenantOf i)")
      case None
      with entry False miss free released have "run d tenantOf (replicate 3 i) c
          = Some (c\<lparr>shared := snd (getTenantConfig d (tenantOf i) (shared c)),
                   place_of := (place_of c)(i := Returned (fst (getTenantConfig d (tenantOf i) (shared c))))\<rparr>)"
        by (simp add: numeral_3_eq_3 caller_step_def getTenantConfig_def mutexByKey_def
            getTenantConfig_locked_def Let_def emit_fields)
      then show ?thesis by blast
    next
      case (Some tenant)
      with entry False miss free released have "run d tenantOf (replicate 4 i) c
          = Some (c\<lparr>shared := snd (getTenantConfig d (tenantOf i) (shared c)),
                   place_of := (place_of c)(i := Returned (fst (getTenantConfig d (tenantOf i) (shared c))))\<rparr>)"
        by (simp add: numeral_eq_Suc caller_step_def getTenantConfig_def mutexByKey_def
            getTenantConfig_locked_def Let_def emit_fields split: sum.splits)
      then show ?thesis by blast
    qed
  qed
qed

text \<open>
  Claim C9, as amended. Any number of callers ask for tenant \<open>t\<close>, all of them at the
  entry of \<open>getTenantConfig\<close>, with \<open>t\<close> uncached and its lock free (first access). The
  store has the row of \<open>t\<close> and the service key of the row verifies, so the population
  succeeds; nothing invalidates the cache during the race. Then, however the callers are
  interleaved, and whatever callers for other tenants do in between, the store is asked
  for the row of \<open>t\<close> at most once, and every caller that has returned has received the
  configuration built from that row.
\<close>

theorem single_flight_when_population_succeeds:
  assumes entry: "\<forall>i. tenantOf i = t \<longrightarrow> place_of c0 i = AtEntry"
      and uncached: "tenantConfigCache (shared c0) t = None"
      and free: "owner c0 t = None"
      and row: "db_tenants (shared c0) t = Some tenant"
      and verified: "verifyJWT d (decrypt d (service_key tenant)) (decrypt d (jwt_secret tenant)) = Inr payload"
      and race: "run d tenantOf schedule c0 = Some c"
  shows "tenant_queries (shared c) t \<le> tenant_queries (shared c0) t + 1
       \<and> (\<forall>i r. tenantOf i = t \<and> t \<noteq> [] \<and> place_of c i = Returned r
              \<longrightarrow> r = Inr (build_config d tenant (decrypt d (service_key tenant))
                             (decrypt d (jwt_secret tenant)) payload))"
proof -
  let ?config = "build_config d tenant (decrypt d (service_key tenant)) (decrypt d (jwt_secret tenant)) payload"
  have "single_flight_inv tenantOf t (tenant_queries (shared c0) t) tenant ?config c0"
    using entry uncached free row unfolding single_flight_inv_def by auto
  from single_flight_inv_run [OF verified refl this race]
  have "single_flight_inv tenantOf t (tenant_queries (shared c0) t) tenant ?config c" .
  then show ?thesis
    unfolding single_flight_inv_def by (auto split: option.splits)
qed

lemmas race_defs = caller_step_def race_start_def Let_def

text \<open>
  Claim C9 as stated fails when the population fails, because a failure is not cached.
  Two callers race on the first access to a tenant without a row: the caller queued
  behind the lock finds the cache still empty and queries the store again. The same
  happens for tenant \<open>t3\<close>, whose row exists but whose service key does not verify.
\<close>

theorem single_flight_counterexample:
  "(\<forall>i. place_of race_start i = AtEntry)
   \<and> tenantConfigCache (shared race_start) ''ghost'' = None
   \<and> tenant_queries (shared race_start) ''ghost'' = 0
   \<and> (\<exists>c. run example_deps (\<lambda>i. ''ghost'') [0, 1, 0, 0, 1, 1] race_start = Some c
          \<and> place_of c 0 = Returned (Inl (MissingTenantConfig ''ghost''))
          \<and> place_of c 1 = Returned (Inl (MissingTenantConfig ''ghost''))
          \<and> tenant_queries (shared c) ''ghost'' = 2)
   \<and> tenantConfigCache (shared race_start) ''t3'' = None
   \<and> tenant_queries (shared race_start) ''t3'' = 0
   \<and> (\<exists>c. run example_deps (\<lambda>i. ''t3'') [0, 1, 0, 0, 0, 1, 1, 1] race_start = Some c
          \<and> place_of c 0 = Returned (Inl (Error ''invalid signature''))
          \<and> place_of c 1 = Returned (Inl (Error ''invalid signature''))
          \<and> tenant_queries (shared c) ''t3'' = 2)"
  by (simp add: race_defs example_defs emit_def tenant_queries_def)

theorem single_flight_when_population_succeeds_witness:
  "(\<forall>i. place_of race_start i = AtEntry)
   \<and> tenantConfigCache (shared race_start) ''t2'' = None
   \<and> owner race_start ''t2'' = None
   \<and> db_tenants (shared race_start) ''t2'' = Some (example_row None)
   \<and> verifyJWT example_deps (decrypt example_deps (service_key (example_row None)))
         (decrypt example_deps (jwt_secret (example_row None))) = Inr \<lparr> role = ''service_role'' \<rparr>
   \<and> (\<exists>c. run example_deps (\<lambda>i. ''t2'') [0, 1, 2, 0, 0, 0, 1, 2] race_start = Some c
          \<and> tenant_queries (shared race_start) ''t2'' = 0
          \<and> tenant_queries (shared c) ''t2'' = 1
          \<and> tenant_queries (shared c) ''t2'' \<le> tenant_queries (shared race_start) ''t2'' + 1
          \<and> (\<exists>r. place_of c 1 = Returned r)
          \<and> place_of c 1 = Returned (Inr (build_config example_deps (example_row None)
                 (decrypt example_deps (service_key (example_row None)))
                 (decrypt example_deps (jwt_secret (example_row None))) \<lparr> role = ''service_role'' \<rparr>)))"
proof -
  have entry: "\<forall>i. place_of race_start i = AtEntry"
    and uncached: "tenantConfigCache (shared race_start) ''t2'' = None"
    and free: "owner race_start ''t2'' = None"
    and row: "db_tenants (shared race_start) ''t2'' = Some (example_row None)"
    and before: "tenant_queries (shared race_start) ''t2'' = 0"
    by (simp_all add: race_start_def example_world_def tenant_queries_def)
  have verified: "verifyJWT example_deps (decrypt example_deps (service_key (example_row None)))
         (decrypt example_deps (jwt_secret (example_row None))) = Inr \<lparr> role = ''service_role'' \<rparr>"
    by (simp add: example_deps_def example_row_def)
  have "\<exists>c. run example_deps (\<lambda>i. ''t2'') [0, 1, 2, 0, 0, 0, 1, 2] race_start = Some c
          \<and> tenant_queries (shared c) ''t2'' = 1
          \<and> (\<exists>r. place_of c 1 = Returned r)"
    by (simp add: race_defs example_defs emit_def tenant_queries_def)
  then obtain c r where c: "run example_deps (\<lambda>i. ''t2'') [0, 1, 2, 0, 0, 0, 1, 2] race_start = Some c"
    and once: "tenant_queries (shared c) ''t2'' = 1"
    and returned: "place_of c 1 = Returned r"
    by blast
  have callers: "\<forall>i. (\<lambda>i. ''t2'') i = ''t2'' \<longrightarrow> place_of race_start i = AtEntry"
    using entry by simp
  from single_flight_when_population_succeeds [OF callers uncached free row verified c]
  have bound: "tenant_queries (shared c) ''t2'' \<le> tenant_queries (shared race_start) ''t2'' + 1"
    and fresh: "r = Inr (build_config example_deps (example_row None)
                 (decrypt example_deps (service_key (example_row None)))
                 (decrypt example_deps (jwt_secret (example_row None))) \<lparr> role = ''service_role'' \<rparr>)"
    using returned by auto
  from entry uncached free row verified c before once bound returned fresh
  show ?thesis by blast
qed

end
